theory Spec2Isabelle
  imports Complex_Main
begin

section \<open>Strings and numbers of the JavaScript source\<close>

text \<open>
  JavaScript strings are modelled as \<open>string\<close>; the development is about ASCII text, where
  \<open>toLowerCase\<close> maps \<open>A..Z\<close> to \<open>a..z\<close> and leaves every other character alone
  (\<open>String.prototype.toLowerCase\<close> also folds the cased characters outside ASCII).
  JavaScript numbers are modelled exactly: counts and points are integers, the one quotient
  of the job-listing scorer is a rational, and \<open>Math.round\<close> rounds a half upwards. The
  source computes the quotient in IEEE doubles, where the product can fall just below a half
  that the exact value reaches (29 matching skills of 100); the bounds proved below hold in
  both, and the examples round alike.
\<close>

definition lowerChar :: "char \<Rightarrow> char" where
  "lowerChar c =
     (case map_of (zip ''ABCDEFGHIJKLMNOPQRSTUVWXYZ'' ''abcdefghijklmnopqrstuvwxyz'') c of
        None \<Rightarrow> c
      | Some d \<Rightarrow> d)"

definition toLowerCase :: "string \<Rightarrow> string" where
  "toLowerCase s = map lowerChar s"

fun startsWith :: "string \<Rightarrow> string \<Rightarrow> bool" where
  "startsWith s [] = True"
| "startsWith [] (c # cs) = False"
| "startsWith (d # ds) (c # cs) = (d = c \<and> startsWith ds cs)"

text \<open>\<open>includes_str s t\<close> is \<open>s.includes(t)\<close>: \<open>t\<close> occurs in \<open>s\<close> as a contiguous substring.\<close>

fun includes_str :: "string \<Rightarrow> string \<Rightarrow> bool" where
  "includes_str [] t = (t = [])"
| "includes_str (c # cs) t = (startsWith (c # cs) t \<or> includes_str cs t)"

definition Math_round :: "rat \<Rightarrow> int" where
  "Math_round x = \<lfloor>x + 1 / 2\<rfloor>"

text \<open>Truthiness of an optional string: \<open>undefined\<close> and the empty string are falsy.\<close>

definition truthy :: "string option \<Rightarrow> bool" where
  "truthy s = (case s of None \<Rightarrow> False | Some v \<Rightarrow> v \<noteq> [])"

section \<open>Data model\<close>

type_synonym objectId = nat
type_synonym jsDate = nat

subsection \<open>User (models/User.js)\<close>

record userLocation =
  user_city :: "string option"
  user_state :: "string option"
  user_country :: "string option"

record userProfile =
  location :: "userLocation option"

record experienceEntry =
  title :: string
  exp_company :: string

record educationEntry =
  degree :: string
  institution :: string

record candidateProfile =
  skills :: "string list option"
  experience :: "experienceEntry list option"
  education :: "educationEntry list option"
  preferredJobTypes :: "string list option"

record user =
  user_id :: objectId
  role :: string
  profile :: "userProfile option"
  candidateProfile :: "candidateProfile option"

subsection \<open>Job (models/Job.js)\<close>

record jobLocation =
  city :: "string option"
  state :: "string option"
  country :: "string option"
  remote :: bool

record jobRequirements =
  req_skills :: "string list option"

record job =
  job_id :: objectId
  company :: objectId
  job_location :: "jobLocation option"
  requirements :: "jobRequirements option"
  jobType :: string
  level :: string
  job_status :: string
  approved :: bool
  applicationCount :: nat

section \<open>The job-listing match score (routes/jobs.js, calculateJobMatch)\<close>

text \<open>\<open>user.candidateProfile?.skills || []\<close> and \<open>job.requirements?.skills || []\<close>.\<close>

definition candidateSkills :: "user \<Rightarrow> string list" where
  "candidateSkills u =
     (case candidateProfile u of None \<Rightarrow> []
      | Some cp \<Rightarrow> (case skills cp of None \<Rightarrow> [] | Some ss \<Rightarrow> ss))"

definition jobSkills :: "job \<Rightarrow> string list" where
  "jobSkills j =
     (case requirements j of None \<Rightarrow> []
      | Some r \<Rightarrow> (case req_skills r of None \<Rightarrow> [] | Some ss \<Rightarrow> ss))"

text \<open>The predicate of the \<open>filter\<close>: some job skill contains the skill or is contained in it,
  both lower-cased.\<close>

definition skillMatches :: "string list \<Rightarrow> string \<Rightarrow> bool" where
  "skillMatches js skill =
     list_ex (\<lambda>jobSkill. includes_str (toLowerCase jobSkill) (toLowerCase skill)
                       \<or> includes_str (toLowerCase skill) (toLowerCase jobSkill)) js"

definition matchingSkills :: "string list \<Rightarrow> string list \<Rightarrow> string list" where
  "matchingSkills cs js = filter (skillMatches js) cs"

definition skillScore :: "string list \<Rightarrow> string list \<Rightarrow> rat" where
  "skillScore cs js =
     (if length cs > 0 \<and> length js > 0
      then (of_nat (length (matchingSkills cs js)) / of_nat (max (length cs) (length js))) * 50
      else 0)"

text \<open>\<open>user.profile?.location\<close>.\<close>

definition userLocationOf :: "user \<Rightarrow> userLocation option" where
  "userLocationOf u = (case profile u of None \<Rightarrow> None | Some p \<Rightarrow> location p)"

text \<open>\<open>a && b && a.toLowerCase() === b.toLowerCase()\<close>.\<close>

definition sameIgnoringCase :: "string option \<Rightarrow> string option \<Rightarrow> bool" where
  "sameIgnoringCase a b =
     (truthy a \<and> truthy b \<and> map_option toLowerCase a = map_option toLowerCase b)"

definition locationScore :: "userLocation option \<Rightarrow> jobLocation option \<Rightarrow> rat" where
  "locationScore ul jl =
     (case ul of None \<Rightarrow> 0
      | Some u \<Rightarrow>
        (case jl of None \<Rightarrow> 0
         | Some l \<Rightarrow>
            if remote l then 20
            else if sameIgnoringCase (user_city u) (city l) then 20
            else if sameIgnoringCase (user_state u) (state l) then 15
            else if sameIgnoringCase (user_country u) (country l) then 10
            else 0))"

text \<open>\<open>user.candidateProfile?.preferredJobTypes || []\<close>.\<close>

definition preferredJobTypesOf :: "user \<Rightarrow> string list" where
  "preferredJobTypesOf u =
     (case candidateProfile u of None \<Rightarrow> []
      | Some cp \<Rightarrow> (case preferredJobTypes cp of None \<Rightarrow> [] | Some ts \<Rightarrow> ts))"

definition jobTypeScore :: "string list \<Rightarrow> string \<Rightarrow> rat" where
  "jobTypeScore ts t = (if t \<in> set ts then 15 else 0)"

text \<open>\<open>user.candidateProfile?.experience?.length || 0\<close>.\<close>

definition userExperience :: "user \<Rightarrow> nat" where
  "userExperience u =
     (case candidateProfile u of None \<Rightarrow> 0
      | Some cp \<Rightarrow> (case experience cp of None \<Rightarrow> 0 | Some es \<Rightarrow> length es))"

definition experienceScore :: "string \<Rightarrow> nat \<Rightarrow> rat" where
  "experienceScore jobLevel n =
     (if jobLevel = ''entry'' \<and> n \<le> 1 then 15
      else if jobLevel = ''junior'' \<and> n \<le> 3 then 15
      else if jobLevel = ''mid'' \<and> n \<ge> 2 \<and> n \<le> 7 then 15
      else if jobLevel = ''senior'' \<and> n \<ge> 5 then 15
      else if jobLevel = ''lead'' \<and> n \<ge> 7 then 15
      else if jobLevel = ''executive'' \<and> n \<ge> 10 then 15
      else 0)"

text \<open>The function returns \<open>null\<close> (here \<open>None\<close>) for a caller who is not a candidate, and
  otherwise the rounded sum of the four components, added in the source's order.\<close>

definition calculateJobMatch :: "job \<Rightarrow> user \<Rightarrow> int option" where
  "calculateJobMatch j u =
     (if role u \<noteq> ''candidate'' then None
      else Some (Math_round
             (0 + skillScore (candidateSkills u) (jobSkills j)
                + locationScore (userLocationOf u) (job_location j)
                + jobTypeScore (preferredJobTypesOf u) (jobType j)
                + experienceScore (level j) (userExperience u))))"

section \<open>Applications (models/Application.js)\<close>

record timelineEntry =
  action :: string
  date :: jsDate
  performedBy :: "objectId option"
  entry_notes :: "string option"

record interviewer =
  interviewer_name :: string
  interviewer_email :: string
  interviewer_role :: "string option"

record interview =
  scheduled :: bool
  interview_date :: "jsDate option"
  interview_time :: "string option"
  interview_type :: string
  interview_location :: "string option"
  meetingLink :: "string option"
  interview_notes :: "string option"
  interviewer :: "interviewer option"

record salary =
  amount :: rat
  currency :: string
  period :: string

record offer =
  offer_salary :: "salary option"
  benefits :: "string list"
  startDate :: "jsDate option"
  terms :: "string option"
  deadline :: "jsDate option"
  accepted :: bool
  acceptedAt :: "jsDate option"

record evaluation =
  technicalSkills :: "int option"
  communicationSkills :: "int option"
  culturalFit :: "int option"
  overallRating :: "int option"
  evaluation_notes :: "string option"
  strengths :: "string list"
  areasForImprovement :: "string list"
  recommended :: bool

text \<open>
  The stored document. The fields that no operation below reads or writes (additional files,
  answers, communications, flags, tags, archive settings, the two automatic timestamps) are
  left out.
\<close>

record application =
  app_id :: objectId
  app_job :: objectId
  applicant :: objectId
  employer :: objectId
  status :: string
  coverLetter :: string
  resume :: "string option"
  matchScore :: "int option"
  app_skills :: "string list"
  app_experience :: "string list"
  app_education :: "string list"
  app_interview :: interview
  app_evaluation :: evaluation
  timeline :: "timelineEntry list"
  app_offer :: offer

text \<open>
  A document in memory: the stored fields, the change tracking of the \<open>status\<close> path that
  \<open>isModified('status')\<close> reads, and whether the document has been inserted yet.
\<close>

record applicationDoc =
  doc :: application
  statusModified :: bool
  isNew :: bool

record db =
  jobs :: "job list"
  applications :: "application list"

datatype error = ValidationError | DuplicateKeyError

definition statusEnum :: "string list" where
  "statusEnum = [''applied'', ''reviewing'', ''shortlisted'', ''interview-scheduled'',
     ''interviewed'', ''offered'', ''hired'', ''rejected'', ''withdrawn'']"

definition timelineActionEnum :: "string list" where
  "timelineActionEnum = [''applied'', ''viewed'', ''shortlisted'', ''interview-scheduled'',
     ''interviewed'', ''offered'', ''hired'', ''rejected'', ''withdrawn'']"

definition interviewTypeEnum :: "string list" where
  "interviewTypeEnum = [''phone'', ''video'', ''in-person'']"

text \<open>
  The validators the schema declares on the modelled paths; \<open>save\<close> runs them before the
  user-defined pre-save hook. A required string must be non-empty.
\<close>

definition validTimelineEntry :: "timelineEntry \<Rightarrow> bool" where
  "validTimelineEntry e = (action e \<noteq> [] \<and> action e \<in> set timelineActionEnum)"

definition validMatchScore :: "int option \<Rightarrow> bool" where
  "validMatchScore m = (case m of None \<Rightarrow> True | Some v \<Rightarrow> 0 \<le> v \<and> v \<le> 100)"

text \<open>The four ratings of an evaluation: \<open>min: 1, max: 5\<close>.\<close>

definition validRating :: "int option \<Rightarrow> bool" where
  "validRating r = (case r of None \<Rightarrow> True | Some v \<Rightarrow> 1 \<le> v \<and> v \<le> 5)"

definition validEvaluation :: "evaluation \<Rightarrow> bool" where
  "validEvaluation e =
     (validRating (technicalSkills e) \<and> validRating (communicationSkills e)
      \<and> validRating (culturalFit e) \<and> validRating (overallRating e))"

definition validateApplication :: "application \<Rightarrow> bool" where
  "validateApplication a =
     (status a \<in> set statusEnum
      \<and> coverLetter a \<noteq> [] \<and> length (coverLetter a) \<le> 2000
      \<and> validMatchScore (matchScore a)
      \<and> interview_type (app_interview a) \<in> set interviewTypeEnum
      \<and> validEvaluation (app_evaluation a)
      \<and> list_all validTimelineEntry (timeline a))"

text \<open>\<open>Application.findById\<close> and \<open>Application.findOne({job, applicant})\<close>.\<close>

definition findApplicationById :: "db \<Rightarrow> objectId \<Rightarrow> application option" where
  "findApplicationById d i = find (\<lambda>a. app_id a = i) (applications d)"

definition findOneApplication :: "db \<Rightarrow> objectId \<Rightarrow> objectId \<Rightarrow> application option" where
  "findOneApplication d j u = find (\<lambda>a. app_job a = j \<and> applicant a = u) (applications d)"

definition loaded :: "application \<Rightarrow> applicationDoc" where
  "loaded a = \<lparr>doc = a, statusModified = False, isNew = False\<rparr>"

text \<open>The assignment \<open>this.status = newStatus\<close>: the path becomes modified when the value
  changes.\<close>

definition setStatus :: "string \<Rightarrow> applicationDoc \<Rightarrow> applicationDoc" where
  "setStatus s d =
     d\<lparr>doc := (doc d)\<lparr>status := s\<rparr>,
       statusModified := (if status (doc d) = s then statusModified d else True)\<rparr>"

definition pushTimeline :: "timelineEntry \<Rightarrow> applicationDoc \<Rightarrow> applicationDoc" where
  "pushTimeline e d = d\<lparr>doc := (doc d)\<lparr>timeline := timeline (doc d) @ [e]\<rparr>\<rparr>"

text \<open>The pre-save hook; \<open>now\<close> is the value of its \<open>new Date()\<close>.\<close>

definition preSave :: "jsDate \<Rightarrow> applicationDoc \<Rightarrow> applicationDoc" where
  "preSave now d =
     (if statusModified d
      then pushTimeline \<lparr>action = status (doc d), date = now,
                         performedBy = Some (employer (doc d)), entry_notes = None\<rparr> d
      else d)"

text \<open>
  The unique indexes: \<open>_id\<close>, and \<open>{job, applicant}\<close>. An insert that would break one of
  them fails with a duplicate-key error.
\<close>

definition violatesUnique :: "application list \<Rightarrow> application \<Rightarrow> bool" where
  "violatesUnique as a =
     list_ex (\<lambda>b. app_id b = app_id a \<or> (app_job b = app_job a \<and> applicant b = applicant a)) as"

text \<open>
  \<open>save\<close>: validation, then the pre-save hook, then the write (an insert for a new document,
  a replacement of the stored document with the same \<open>_id\<close> otherwise). A rejected promise is
  \<open>Inl\<close>; nothing is written then.
\<close>

definition save :: "jsDate \<Rightarrow> db \<Rightarrow> applicationDoc \<Rightarrow> error + (applicationDoc \<times> db)" where
  "save now d x =
     (if \<not> validateApplication (doc x) then Inl ValidationError
      else
        let y = preSave now x;
            z = y\<lparr>statusModified := False, isNew := False\<rparr>
        in if isNew y
           then (if violatesUnique (applications d) (doc y) then Inl DuplicateKeyError
                 else Inr (z, d\<lparr>applications := applications d @ [doc y]\<rparr>))
           else Inr (z, d\<lparr>applications :=
                            map (\<lambda>a. if app_id a = app_id (doc y) then doc y else a)
                                (applications d)\<rparr>))"

text \<open>
  \<open>updateStatus(newStatus, performedBy, notes = '')\<close>; \<open>t1\<close> is the value of the method's
  own \<open>new Date()\<close>, \<open>t2\<close> the one of the pre-save hook.
\<close>

definition updateStatus ::
  "jsDate \<Rightarrow> jsDate \<Rightarrow> db \<Rightarrow> applicationDoc \<Rightarrow> string \<Rightarrow> objectId \<Rightarrow> string option
     \<Rightarrow> error + (applicationDoc \<times> db)" where
  "updateStatus t1 t2 d x newStatus actor nts =
     save t2 d
       (pushTimeline \<lparr>action = newStatus, date = t1, performedBy = Some actor,
                      entry_notes = Some (case nts of None \<Rightarrow> [] | Some n \<Rightarrow> n)\<rparr>
          (setStatus newStatus x))"

text \<open>\<open>calculateMatchScore\<close>: the score it assigns, and the method itself.\<close>

definition submissionScore :: "application \<Rightarrow> int" where
  "submissionScore a =
     (let s0 = 0;
          s1 = (if length (app_skills a) > 0
                then s0 + min (int (length (app_skills a)) * 10) 50 else s0);
          s2 = (if length (app_experience a) > 0
                then s1 + min (int (length (app_experience a)) * 5) 30 else s1);
          s3 = (if length (app_education a) > 0
                then s2 + min (int (length (app_education a)) * 5) 20 else s2)
      in min s3 100)"

definition calculateMatchScore ::
  "jsDate \<Rightarrow> db \<Rightarrow> applicationDoc \<Rightarrow> error + (applicationDoc \<times> db)" where
  "calculateMatchScore now d x =
     save now d (x\<lparr>doc := (doc x)\<lparr>matchScore := Some (submissionScore (doc x))\<rparr>\<rparr>)"

section \<open>Jobs as the application routes use them\<close>

definition jobTypeEnum :: "string list" where
  "jobTypeEnum = [''full-time'', ''part-time'', ''contract'', ''internship'', ''freelance'']"

definition levelEnum :: "string list" where
  "levelEnum = [''entry'', ''junior'', ''mid'', ''senior'', ''lead'', ''executive'']"

definition jobStatusEnum :: "string list" where
  "jobStatusEnum = [''active'', ''paused'', ''closed'', ''draft'']"

text \<open>The enum validators of the job schema on the modelled paths.\<close>

definition validateJob :: "job \<Rightarrow> bool" where
  "validateJob j =
     (jobType j \<in> set jobTypeEnum \<and> level j \<in> set levelEnum \<and> job_status j \<in> set jobStatusEnum)"

definition findJobById :: "db \<Rightarrow> objectId \<Rightarrow> job option" where
  "findJobById d i = find (\<lambda>j. job_id j = i) (jobs d)"

text \<open>\<open>incrementApplications\<close>: \<open>this.applicationCount += 1; return this.save()\<close>.\<close>

definition incrementApplications :: "db \<Rightarrow> job \<Rightarrow> error + (job \<times> db)" where
  "incrementApplications d j =
     (let k = j\<lparr>applicationCount := applicationCount j + 1\<rparr>
      in if \<not> validateJob k then Inl ValidationError
         else Inr (k, d\<lparr>jobs := map (\<lambda>x. if job_id x = job_id k then k else x) (jobs d)\<rparr>))"

section \<open>The application routes (routes/applications.js)\<close>

datatype body =
    AccessDenied
  | Errors
  | Message string
  | ApplicationBody string "application option"

type_synonym response = "nat \<times> body"

text \<open>
  Modelled from the spec: the module \<open>middleware/auth\<close> that exports the \<open>employer\<close> and
  \<open>candidate\<close> middleware is not among the sources. The spec says that only the owning
  employer or an admin may change status, schedule interviews, evaluate or make offers, that
  only the applicant may accept an offer or withdraw, and that an authorization error is a 403;
  the routes annotate themselves "Employer or Admin" and "Candidates only". The ownership
  checks are in the handlers; the middleware is the check of the role.
\<close>

definition employerMiddleware :: "user \<Rightarrow> bool" where
  "employerMiddleware u = (role u = ''employer'' \<or> role u = ''admin'')"

definition candidateMiddleware :: "user \<Rightarrow> bool" where
  "candidateMiddleware u = (role u = ''candidate'')"

text \<open>
  In every handler \<open>now k\<close> is the value of the \<open>k\<close>-th \<open>new Date()\<close> that serving the request
  evaluates, counted from 0. A request body is the body after the sanitizers of the validation
  chain ran. Where the chain uses validators whose definition is in the express-validator
  library (URLs, e-mail addresses, ISO dates), the body carries the list of errors the chain
  found.
\<close>

subsection \<open>PUT /api/applications/:id/status\<close>

record statusBody =
  body_status :: "string option"
  body_notes :: "string option"

definition serverError :: response where
  "serverError = (500, Message ''Server error'')"

definition putStatus :: "(nat \<Rightarrow> jsDate) \<Rightarrow> db \<Rightarrow> user \<Rightarrow> objectId \<Rightarrow> statusBody \<Rightarrow> response \<times> db" where
  "putStatus now d u i b =
     (if \<not> employerMiddleware u then ((403, AccessDenied), d)
      else case body_status b of
        None \<Rightarrow> ((400, Errors), d)
      | Some s \<Rightarrow>
          if s \<notin> set statusEnum then ((400, Errors), d)
          else case findApplicationById d i of
            None \<Rightarrow> ((404, Message ''Application not found''), d)
          | Some a \<Rightarrow>
              if employer a \<noteq> user_id u \<and> role u \<noteq> ''admin''
              then ((403, Message ''Not authorized to update this application''), d)
              else case updateStatus (now 0) (now 1) d (loaded a) s (user_id u) (body_notes b) of
                Inl e \<Rightarrow> (serverError, d)
              | Inr (x, d') \<Rightarrow>
                  ((200, ApplicationBody ''Application status updated successfully''
                           (findApplicationById d' (app_id a))), d'))"

subsection \<open>POST /api/applications/:id/interview\<close>

record interviewBody =
  ib_errors :: "string list"
  ib_date :: jsDate
  ib_time :: string
  ib_type :: string
  ib_location :: "string option"
  ib_meetingLink :: "string option"
  ib_notes :: "string option"
  ib_interviewer :: interviewer

definition scheduleInterview ::
  "(nat \<Rightarrow> jsDate) \<Rightarrow> db \<Rightarrow> user \<Rightarrow> objectId \<Rightarrow> interviewBody \<Rightarrow> response \<times> db" where
  "scheduleInterview now d u i b =
     (if \<not> employerMiddleware u then ((403, AccessDenied), d)
      else if ib_errors b \<noteq> [] then ((400, Errors), d)
      else case findApplicationById d i of
        None \<Rightarrow> ((404, Message ''Application not found''), d)
      | Some a \<Rightarrow>
          if employer a \<noteq> user_id u \<and> role u \<noteq> ''admin''
          then ((403, Message ''Not authorized to schedule interview for this application''), d)
          else
            let x = (loaded a)\<lparr>doc := a\<lparr>app_interview :=
                      \<lparr>scheduled = True, interview_date = Some (ib_date b),
                       interview_time = Some (ib_time b), interview_type = ib_type b,
                       interview_location = ib_location b, meetingLink = ib_meetingLink b,
                       interview_notes = ib_notes b, interviewer = Some (ib_interviewer b)\<rparr>\<rparr>\<rparr>
            in case updateStatus (now 0) (now 1) d x ''interview-scheduled'' (user_id u)
                      (Some ''Interview scheduled'') of
                 Inl e \<Rightarrow> (serverError, d)
               | Inr (y, d') \<Rightarrow>
                   ((200, ApplicationBody ''Interview scheduled successfully''
                            (findApplicationById d' (app_id a))), d'))"

subsection \<open>POST /api/applications/:id/evaluate\<close>

text \<open>The fields of the body are optional: a field that is absent is \<open>None\<close>.\<close>

record evaluateBody =
  eb_errors :: "string list"
  eb_technicalSkills :: "int option"
  eb_communicationSkills :: "int option"
  eb_culturalFit :: "int option"
  eb_overallRating :: "int option"
  eb_notes :: "string option"
  eb_strengths :: "string list option"
  eb_areasForImprovement :: "string list option"
  eb_recommended :: "bool option"

text \<open>\<open>{...application.evaluation, ...req.body}\<close>: a field of the body, where present,
  replaces the stored one.\<close>

definition mergeEvaluation :: "evaluation \<Rightarrow> evaluateBody \<Rightarrow> evaluation" where
  "mergeEvaluation e b =
     \<lparr>technicalSkills =
        (case eb_technicalSkills b of None \<Rightarrow> technicalSkills e | Some v \<Rightarrow> Some v),
      communicationSkills =
        (case eb_communicationSkills b of None \<Rightarrow> communicationSkills e | Some v \<Rightarrow> Some v),
      culturalFit = (case eb_culturalFit b of None \<Rightarrow> culturalFit e | Some v \<Rightarrow> Some v),
      overallRating = (case eb_overallRating b of None \<Rightarrow> overallRating e | Some v \<Rightarrow> Some v),
      evaluation_notes = (case eb_notes b of None \<Rightarrow> evaluation_notes e | Some v \<Rightarrow> Some v),
      strengths = (case eb_strengths b of None \<Rightarrow> strengths e | Some v \<Rightarrow> v),
      areasForImprovement =
        (case eb_areasForImprovement b of None \<Rightarrow> areasForImprovement e | Some v \<Rightarrow> v),
      recommended = (case eb_recommended b of None \<Rightarrow> recommended e | Some v \<Rightarrow> v)\<rparr>"

definition evaluate ::
  "(nat \<Rightarrow> jsDate) \<Rightarrow> db \<Rightarrow> user \<Rightarrow> objectId \<Rightarrow> evaluateBody \<Rightarrow> response \<times> db" where
  "evaluate now d u i b =
     (if \<not> employerMiddleware u then ((403, AccessDenied), d)
      else if eb_errors b \<noteq> [] then ((400, Errors), d)
      else case findApplicationById d i of
        None \<Rightarrow> ((404, Message ''Application not found''), d)
      | Some a \<Rightarrow>
          if employer a \<noteq> user_id u \<and> role u \<noteq> ''admin''
          then ((403, Message ''Not authorized to evaluate this application''), d)
          else
            let x = (loaded a)\<lparr>doc := a\<lparr>app_evaluation :=
                      mergeEvaluation (app_evaluation a) b\<rparr>\<rparr>
            in case save (now 0) d x of
                 Inl e \<Rightarrow> (serverError, d)
               | Inr (y, d') \<Rightarrow>
                   ((200, ApplicationBody ''Application evaluated successfully''
                            (findApplicationById d' (app_id a))), d'))"

subsection \<open>POST /api/applications/:id/offer\<close>

record offerBody =
  ob_errors :: "string list"
  ob_amount :: rat
  ob_currency :: "string option"
  ob_period :: "string option"
  ob_benefits :: "string list option"
  ob_startDate :: jsDate
  ob_terms :: "string option"
  ob_deadline :: jsDate

text \<open>\<open>v || fallback\<close> on an optional string.\<close>

definition orElse :: "string option \<Rightarrow> string \<Rightarrow> string" where
  "orElse v fallback = (case v of None \<Rightarrow> fallback | Some w \<Rightarrow> if w = [] then fallback else w)"

definition makeOffer ::
  "(nat \<Rightarrow> jsDate) \<Rightarrow> db \<Rightarrow> user \<Rightarrow> objectId \<Rightarrow> offerBody \<Rightarrow> response \<times> db" where
  "makeOffer now d u i b =
     (if \<not> employerMiddleware u then ((403, AccessDenied), d)
      else if ob_errors b \<noteq> [] then ((400, Errors), d)
      else case findApplicationById d i of
        None \<Rightarrow> ((404, Message ''Application not found''), d)
      | Some a \<Rightarrow>
          if employer a \<noteq> user_id u \<and> role u \<noteq> ''admin''
          then ((403, Message ''Not authorized to make offer for this application''), d)
          else
            let x = (loaded a)\<lparr>doc := a\<lparr>app_offer :=
                      \<lparr>offer_salary = Some \<lparr>amount = ob_amount b,
                                            currency = orElse (ob_currency b) ''USD'',
                                            period = orElse (ob_period b) ''yearly''\<rparr>,
                       benefits = (case ob_benefits b of None \<Rightarrow> [] | Some bs \<Rightarrow> bs),
                       startDate = Some (ob_startDate b), terms = ob_terms b,
                       deadline = Some (ob_deadline b),
                       accepted = False, acceptedAt = None\<rparr>\<rparr>\<rparr>
            in case updateStatus (now 0) (now 1) d x ''offered'' (user_id u)
                      (Some ''Job offer made'') of
                 Inl e \<Rightarrow> (serverError, d)
               | Inr (y, d') \<Rightarrow>
                   ((200, ApplicationBody ''Job offer made successfully''
                            (findApplicationById d' (app_id a))), d'))"

subsection \<open>POST /api/applications/:id/accept-offer\<close>

definition acceptOffer :: "(nat \<Rightarrow> jsDate) \<Rightarrow> db \<Rightarrow> user \<Rightarrow> objectId \<Rightarrow> response \<times> db" where
  "acceptOffer now d u i =
     (if \<not> candidateMiddleware u then ((403, AccessDenied), d)
      else case findApplicationById d i of
        None \<Rightarrow> ((404, Message ''Application not found''), d)
      | Some a \<Rightarrow>
          if applicant a \<noteq> user_id u
          then ((403, Message ''Not authorized to accept offer for this application''), d)
          else if status a \<noteq> ''offered'' then ((400, Message ''No offer to accept''), d)
          else
            let x = (loaded a)\<lparr>doc := a\<lparr>app_offer :=
                      (app_offer a)\<lparr>accepted := True, acceptedAt := Some (now 0)\<rparr>\<rparr>\<rparr>
            in case updateStatus (now 1) (now 2) d x ''hired'' (user_id u)
                      (Some ''Offer accepted'') of
                 Inl e \<Rightarrow> (serverError, d)
               | Inr (y, d') \<Rightarrow>
                   ((200, ApplicationBody ''Offer accepted successfully''
                            (findApplicationById d' (app_id a))), d'))"

subsection \<open>POST /api/applications/:id/withdraw\<close>

definition withdraw :: "(nat \<Rightarrow> jsDate) \<Rightarrow> db \<Rightarrow> user \<Rightarrow> objectId \<Rightarrow> response \<times> db" where
  "withdraw now d u i =
     (if \<not> candidateMiddleware u then ((403, AccessDenied), d)
      else case findApplicationById d i of
        None \<Rightarrow> ((404, Message ''Application not found''), d)
      | Some a \<Rightarrow>
          if applicant a \<noteq> user_id u
          then ((403, Message ''Not authorized to withdraw this application''), d)
          else if status a = ''hired'' \<or> status a = ''withdrawn''
          then ((400, Message ''Cannot withdraw application in current status''), d)
          else case updateStatus (now 0) (now 1) d (loaded a) ''withdrawn'' (user_id u)
                      (Some ''Application withdrawn by candidate'') of
                 Inl e \<Rightarrow> (serverError, d)
               | Inr (y, d') \<Rightarrow>
                   ((200, ApplicationBody ''Application withdrawn successfully''
                            (findApplicationById d' (app_id a))), d'))"

subsection \<open>POST /api/applications\<close>

record applyBody =
  ab_errors :: "string list"
  jobId :: objectId
  ab_coverLetter :: string
  ab_resume :: "string option"

definition candidateExperience :: "user \<Rightarrow> experienceEntry list" where
  "candidateExperience u =
     (case candidateProfile u of None \<Rightarrow> []
      | Some cp \<Rightarrow> (case experience cp of None \<Rightarrow> [] | Some es \<Rightarrow> es))"

definition candidateEducation :: "user \<Rightarrow> educationEntry list" where
  "candidateEducation u =
     (case candidateProfile u of None \<Rightarrow> []
      | Some cp \<Rightarrow> (case education cp of None \<Rightarrow> [] | Some es \<Rightarrow> es))"

definition defaultInterview :: interview where
  "defaultInterview =
     \<lparr>scheduled = False, interview_date = None, interview_time = None,
      interview_type = ''video'', interview_location = None, meetingLink = None,
      interview_notes = None, interviewer = None\<rparr>"

definition defaultEvaluation :: evaluation where
  "defaultEvaluation =
     \<lparr>technicalSkills = None, communicationSkills = None, culturalFit = None,
      overallRating = None, evaluation_notes = None, strengths = [],
      areasForImprovement = [], recommended = False\<rparr>"

definition defaultOffer :: offer where
  "defaultOffer =
     \<lparr>offer_salary = None, benefits = [], startDate = None, terms = None, deadline = None,
      accepted = False, acceptedAt = None\<rparr>"

text \<open>
  \<open>new Application({...})\<close> with the identifier \<open>newId\<close> the driver generates. The status is
  not among the constructor's arguments: the path takes the schema default \<open>applied\<close>, which
  is not a modification of the path.
\<close>

definition newApplication :: "objectId \<Rightarrow> job \<Rightarrow> user \<Rightarrow> applyBody \<Rightarrow> applicationDoc" where
  "newApplication newId j u b =
     \<lparr>doc = \<lparr>app_id = newId, app_job = jobId b, applicant = user_id u, employer = company j,
             status = ''applied'', coverLetter = ab_coverLetter b,
             resume = (if truthy (ab_resume b) then ab_resume b else None),
             matchScore = None,
             app_skills = candidateSkills u,
             app_experience = map title (candidateExperience u),
             app_education = map degree (candidateEducation u),
             app_interview = defaultInterview, app_evaluation = defaultEvaluation,
             timeline = [], app_offer = defaultOffer\<rparr>,
      statusModified = False, isNew = True\<rparr>"

text \<open>The source's guard \<open>job.status !== 'active' || !job.approved\<close> is written as the
  negation of the conjunction.\<close>

definition submitApplication ::
  "(nat \<Rightarrow> jsDate) \<Rightarrow> objectId \<Rightarrow> db \<Rightarrow> user \<Rightarrow> applyBody \<Rightarrow> response \<times> db" where
  "submitApplication now newId d u b =
     (if \<not> candidateMiddleware u then ((403, AccessDenied), d)
      else if ab_errors b \<noteq> [] then ((400, Errors), d)
      else case findJobById d (jobId b) of
        None \<Rightarrow> ((404, Message ''Job not found''), d)
      | Some j \<Rightarrow>
          if \<not> (job_status j = ''active'' \<and> approved j)
          then ((400, Message ''This job is not accepting applications''), d)
          else case findOneApplication d (jobId b) (user_id u) of
            Some existing \<Rightarrow> ((400, Message ''You have already applied to this job''), d)
          | None \<Rightarrow>
             (case save (now 0) d (newApplication newId j u b) of
                Inl e \<Rightarrow> (serverError, d)
              | Inr (x, d1) \<Rightarrow>
                 (case calculateMatchScore (now 1) d1 x of
                    Inl e \<Rightarrow> (serverError, d1)
                  | Inr (y, d2) \<Rightarrow>
                     (case incrementApplications d2 j of
                        Inl e \<Rightarrow> (serverError, d2)
                      | Inr (k, d3) \<Rightarrow>
                          ((201, ApplicationBody ''Application submitted successfully''
                                   (findApplicationById d3 (app_id (doc y)))), d3)))))"

subsection \<open>The router\<close>

text \<open>
  The requests that write applications, as the router dispatches them, and a run of requests
  served one after the other. No other code of the repository writes to the collection.
\<close>

datatype request =
    Submit "nat \<Rightarrow> jsDate" objectId user applyBody
  | PutStatus "nat \<Rightarrow> jsDate" user objectId statusBody
  | ScheduleInterview "nat \<Rightarrow> jsDate" user objectId interviewBody
  | Evaluate "nat \<Rightarrow> jsDate" user objectId evaluateBody
  | MakeOffer "nat \<Rightarrow> jsDate" user objectId offerBody
  | AcceptOffer "nat \<Rightarrow> jsDate" user objectId
  | Withdraw "nat \<Rightarrow> jsDate" user objectId

fun handle :: "request \<Rightarrow> db \<Rightarrow> response \<times> db" where
  "handle (Submit now newId u b) d = submitApplication now newId d u b"
| "handle (PutStatus now u i b) d = putStatus now d u i b"
| "handle (ScheduleInterview now u i b) d = scheduleInterview now d u i b"
| "handle (Evaluate now u i b) d = evaluate now d u i b"
| "handle (MakeOffer now u i b) d = makeOffer now d u i b"
| "handle (AcceptOffer now u i) d = acceptOffer now d u i"
| "handle (Withdraw now u i) d = withdraw now d u i"


text \<open>
  What the unique indexes of the collection promise: no two stored applications share an
  \<open>_id\<close>, and no two share the pair of job and applicant
  (\<open>applicationSchema.index({ job: 1, applicant: 1 }, { unique: true })\<close>).
\<close>

definition applicationKey :: "application \<Rightarrow> objectId \<times> objectId \<times> objectId" where
  "applicationKey a = (app_id a, app_job a, applicant a)"


subsection \<open>Requests in flight\<close>

text \<open>
  A handler is asynchronous. At each \<open>await\<close> it hands one database operation to the driver,
  and other requests may run before it resumes: the handlers above are the runs in which
  nothing comes in between. A task is what remains of a handler at an \<open>await\<close>: the
  operation it waits for, together with the local variables that the rest of the handler
  reads.
\<close>

datatype task =
    SubmitFindJob "nat \<Rightarrow> jsDate" objectId user applyBody
  | SubmitFindExisting "nat \<Rightarrow> jsDate" objectId user applyBody job
  | SubmitSave "nat \<Rightarrow> jsDate" job applicationDoc
  | SubmitScore "nat \<Rightarrow> jsDate" job applicationDoc
  | SubmitCount job applicationDoc
  | StatusFind "nat \<Rightarrow> jsDate" user objectId string "string option"
  | InterviewFind "nat \<Rightarrow> jsDate" user objectId interviewBody
  | EvaluateFind "nat \<Rightarrow> jsDate" user objectId evaluateBody
  | OfferFind "nat \<Rightarrow> jsDate" user objectId offerBody
  | AcceptFind "nat \<Rightarrow> jsDate" user objectId
  | WithdrawFind "nat \<Rightarrow> jsDate" user objectId
  | Save jsDate string applicationDoc
  | ReadBack nat string objectId
  | Done response

text \<open>The synchronous code of a handler before its first \<open>await\<close>: the middleware and the
  check of the validation result.\<close>

fun start :: "request \<Rightarrow> task" where
  "start (Submit now newId u b) =
     (if \<not> candidateMiddleware u then Done (403, AccessDenied)
      else if ab_errors b \<noteq> [] then Done (400, Errors)
      else SubmitFindJob now newId u b)"
| "start (PutStatus now u i b) =
     (if \<not> employerMiddleware u then Done (403, AccessDenied)
      else case body_status b of
        None \<Rightarrow> Done (400, Errors)
      | Some s \<Rightarrow> if s \<notin> set statusEnum then Done (400, Errors)
                  else StatusFind now u i s (body_notes b))"
| "start (ScheduleInterview now u i b) =
     (if \<not> employerMiddleware u then Done (403, AccessDenied)
      else if ib_errors b \<noteq> [] then Done (400, Errors)
      else InterviewFind now u i b)"
| "start (Evaluate now u i b) =
     (if \<not> employerMiddleware u then Done (403, AccessDenied)
      else if eb_errors b \<noteq> [] then Done (400, Errors)
      else EvaluateFind now u i b)"
| "start (MakeOffer now u i b) =
     (if \<not> employerMiddleware u then Done (403, AccessDenied)
      else if ob_errors b \<noteq> [] then Done (400, Errors)
      else OfferFind now u i b)"
| "start (AcceptOffer now u i) =
     (if \<not> candidateMiddleware u then Done (403, AccessDenied) else AcceptFind now u i)"
| "start (Withdraw now u i) =
     (if \<not> candidateMiddleware u then Done (403, AccessDenied) else WithdrawFind now u i)"

text \<open>The synchronous part of \<open>updateStatus\<close>, before its \<open>this.save()\<close>.\<close>

definition updateStatusInMemory ::
  "jsDate \<Rightarrow> applicationDoc \<Rightarrow> string \<Rightarrow> objectId \<Rightarrow> string option \<Rightarrow> applicationDoc" where
  "updateStatusInMemory t1 x newStatus actor nts =
     pushTimeline \<lparr>action = newStatus, date = t1, performedBy = Some actor,
                    entry_notes = Some (case nts of None \<Rightarrow> [] | Some n \<Rightarrow> n)\<rparr>
       (setStatus newStatus x)"

text \<open>
  One step of a task: the database operation it waits for, on the database as it is then,
  followed by the handler's synchronous code up to the next \<open>await\<close> or to the response.
\<close>

fun advance :: "task \<Rightarrow> db \<Rightarrow> task \<times> db" where
  "advance (SubmitFindJob now newId u b) d =
     (case findJobById d (jobId b) of
        None \<Rightarrow> (Done (404, Message ''Job not found''), d)
      | Some j \<Rightarrow>
          if \<not> (job_status j = ''active'' \<and> approved j)
          then (Done (400, Message ''This job is not accepting applications''), d)
          else (SubmitFindExisting now newId u b j, d))"
| "advance (SubmitFindExisting now newId u b j) d =
     (case findOneApplication d (jobId b) (user_id u) of
        Some existing \<Rightarrow> (Done (400, Message ''You have already applied to this job''), d)
      | None \<Rightarrow> (SubmitSave now j (newApplication newId j u b), d))"
| "advance (SubmitSave now j x) d =
     (case save (now 0) d x of
        Inl e \<Rightarrow> (Done serverError, d)
      | Inr (y, d') \<Rightarrow> (SubmitScore now j y, d'))"
| "advance (SubmitScore now j x) d =
     (case calculateMatchScore (now 1) d x of
        Inl e \<Rightarrow> (Done serverError, d)
      | Inr (y, d') \<Rightarrow> (SubmitCount j y, d'))"
| "advance (SubmitCount j x) d =
     (case incrementApplications d j of
        Inl e \<Rightarrow> (Done serverError, d)
      | Inr (k, d') \<Rightarrow>
          (ReadBack 201 ''Application submitted successfully'' (app_id (doc x)), d'))"
| "advance (StatusFind now u i s nts) d =
     (case findApplicationById d i of
        None \<Rightarrow> (Done (404, Message ''Application not found''), d)
      | Some a \<Rightarrow>
          if employer a \<noteq> user_id u \<and> role u \<noteq> ''admin''
          then (Done (403, Message ''Not authorized to update this application''), d)
          else (Save (now 1) ''Application status updated successfully''
                  (updateStatusInMemory (now 0) (loaded a) s (user_id u) nts), d))"
| "advance (InterviewFind now u i b) d =
     (case findApplicationById d i of
        None \<Rightarrow> (Done (404, Message ''Application not found''), d)
      | Some a \<Rightarrow>
          if employer a \<noteq> user_id u \<and> role u \<noteq> ''admin''
          then (Done (403, Message ''Not authorized to schedule interview for this application''),
                d)
          else
            let x = (loaded a)\<lparr>doc := a\<lparr>app_interview :=
                      \<lparr>scheduled = True, interview_date = Some (ib_date b),
                       interview_time = Some (ib_time b), interview_type = ib_type b,
                       interview_location = ib_location b, meetingLink = ib_meetingLink b,
                       interview_notes = ib_notes b, interviewer = Some (ib_interviewer b)\<rparr>\<rparr>\<rparr>
            in (Save (now 1) ''Interview scheduled successfully''
                  (updateStatusInMemory (now 0) x ''interview-scheduled'' (user_id u)
                     (Some ''Interview scheduled'')), d))"
| "advance (EvaluateFind now u i b) d =
     (case findApplicationById d i of
        None \<Rightarrow> (Done (404, Message ''Application not found''), d)
      | Some a \<Rightarrow>
          if employer a \<noteq> user_id u \<and> role u \<noteq> ''admin''
          then (Done (403, Message ''Not authorized to evaluate this application''), d)
          else (Save (now 0) ''Application evaluated successfully''
                  ((loaded a)\<lparr>doc := a\<lparr>app_evaluation :=
                      mergeEvaluation (app_evaluation a) b\<rparr>\<rparr>), d))"
| "advance (OfferFind now u i b) d =
     (case findApplicationById d i of
        None \<Rightarrow> (Done (404, Message ''Application not found''), d)
      | Some a \<Rightarrow>
          if employer a \<noteq> user_id u \<and> role u \<noteq> ''admin''
          then (Done (403, Message ''Not authorized to make offer for this application''), d)
          else
            let x = (loaded a)\<lparr>doc := a\<lparr>app_offer :=
                      \<lparr>offer_salary = Some \<lparr>amount = ob_amount b,
                                            currency = orElse (ob_currency b) ''USD'',
                                            period = orElse (ob_period b) ''yearly''\<rparr>,
                       benefits = (case ob_benefits b of None \<Rightarrow> [] | Some bs \<Rightarrow> bs),
                       startDate = Some (ob_startDate b), terms = ob_terms b,
                       deadline = Some (ob_deadline b),
                       accepted = False, acceptedAt = None\<rparr>\<rparr>\<rparr>
            in (Save (now 1) ''Job offer made successfully''
                  (updateStatusInMemory (now 0) x ''offered'' (user_id u)
                     (Some ''Job offer made'')), d))"
| "advance (AcceptFind now u i) d =
     (case findApplicationById d i of
        None \<Rightarrow> (Done (404, Message ''Application not found''), d)
      | Some a \<Rightarrow>
          if applicant a \<noteq> user_id u
          then (Done (403, Message ''Not authorized to accept offer for this application''), d)
          else if status a \<noteq> ''offered'' then (Done (400, Message ''No offer to accept''), d)
          else
            let x = (loaded a)\<lparr>doc := a\<lparr>app_offer :=
                      (app_offer a)\<lparr>accepted := True, acceptedAt := Some (now 0)\<rparr>\<rparr>\<rparr>
            in (Save (now 2) ''Offer accepted successfully''
                  (updateStatusInMemory (now 1) x ''hired'' (user_id u)
                     (Some ''Offer accepted'')), d))"
| "advance (WithdrawFind now u i) d =
     (case findApplicationById d i of
        None \<Rightarrow> (Done (404, Message ''Application not found''), d)
      | Some a \<Rightarrow>
          if applicant a \<noteq> user_id u
          then (Done (403, Message ''Not authorized to withdraw this application''), d)
          else if status a = ''hired'' \<or> status a = ''withdrawn''
          then (Done (400, Message ''Cannot withdraw application in current status''), d)
          else (Save (now 1) ''Application withdrawn successfully''
                  (updateStatusInMemory (now 0) (loaded a) ''withdrawn'' (user_id u)
                     (Some ''Application withdrawn by candidate'')), d))"
| "advance (Save t msg x) d =
     (case save t d x of
        Inl e \<Rightarrow> (Done serverError, d)
      | Inr (y, d') \<Rightarrow> (ReadBack 200 msg (app_id (doc x)), d'))"
| "advance (ReadBack c msg i) d = (Done (c, ApplicationBody msg (findApplicationById d i)), d)"
| "advance (Done r) d = (Done r, d)"

text \<open>A task advanced \<open>n\<close> times with nothing in between.\<close>

fun advanceTimes :: "nat \<Rightarrow> task \<Rightarrow> db \<Rightarrow> task \<times> db" where
  "advanceTimes 0 t d = (t, d)"
| "advanceTimes (Suc n) t d = advanceTimes n (fst (advance t d)) (snd (advance t d))"




text \<open>
  What a task in flight holds in memory: a document still to be inserted is new, and a
  document to be saved again has the \<open>_id\<close>, job and applicant of a stored document, since no
  handler assigns to these three paths.
\<close>

fun holdsStoredKey :: "db \<Rightarrow> task \<Rightarrow> bool" where
  "holdsStoredKey d (SubmitSave now j x) = isNew x"
| "holdsStoredKey d (SubmitScore now j x) =
     (\<not> isNew x \<and> applicationKey (doc x) \<in> set (map applicationKey (applications d)))"
| "holdsStoredKey d (Save t msg x) =
     (\<not> isNew x \<and> applicationKey (doc x) \<in> set (map applicationKey (applications d)))"
| "holdsStoredKey d t = True"

section \<open>Example documents\<close>

definition reactJob :: job where
  "reactJob =
     \<lparr>job_id = 10, company = 7, job_location = None,
      requirements = Some \<lparr>req_skills = Some [''React'', ''Node.js'', ''MongoDB'']\<rparr>,
      jobType = ''full-time'', level = ''senior'', job_status = ''active'', approved = True,
      applicationCount = 0\<rparr>"

definition remoteJob :: job where
  "remoteJob =
     \<lparr>job_id = 11, company = 7,
      job_location = Some \<lparr>city = Some ''Berlin'', state = None, country = Some ''Germany'',
                            remote = True\<rparr>,
      requirements = None,
      jobType = ''contract'', level = ''entry'', job_status = ''active'', approved = True,
      applicationCount = 0\<rparr>"

definition reactCandidate :: user where
  "reactCandidate =
     \<lparr>user_id = 5, role = ''candidate'', profile = None,
      candidateProfile = Some \<lparr>skills = Some [''JavaScript'', ''React''], experience = None,
                                education = None, preferredJobTypes = None\<rparr>\<rparr>"

definition emptyCandidate :: user where
  "emptyCandidate =
     \<lparr>user_id = 6, role = ''candidate'', profile = Some \<lparr>location = None\<rparr>,
      candidateProfile = Some \<lparr>skills = Some [], experience = Some [],
                                education = Some [], preferredJobTypes = Some []\<rparr>\<rparr>"

definition limaCandidate :: user where
  "limaCandidate =
     \<lparr>user_id = 8, role = ''candidate'',
      profile = Some \<lparr>location = Some \<lparr>user_city = Some ''Lima'', user_state = None,
                                         user_country = Some ''Peru''\<rparr>\<rparr>,
      candidateProfile = None\<rparr>"

definition skilledCandidate :: user where
  "skilledCandidate =
     \<lparr>user_id = 9, role = ''candidate'', profile = None,
      candidateProfile =
        Some \<lparr>skills = Some [''Python'', ''Django'', ''SQL''],
              experience = Some [\<lparr>title = ''Developer'', exp_company = ''Acme''\<rparr>,
                                 \<lparr>title = ''Intern'', exp_company = ''Initech''\<rparr>],
              education = Some [\<lparr>degree = ''BSc'', institution = ''State University''\<rparr>],
              preferredJobTypes = Some [''full-time'']\<rparr>\<rparr>"

definition employerUser :: user where
  "employerUser = \<lparr>user_id = 7, role = ''employer'', profile = None, candidateProfile = None\<rparr>"

definition exampleApplication :: application where
  "exampleApplication =
     \<lparr>app_id = 1, app_job = 10, applicant = 5, employer = 7,
      status = ''applied'', coverLetter = ''Hello'', resume = None, matchScore = Some 20,
      app_skills = [''JavaScript'', ''React''], app_experience = [], app_education = [],
      app_interview = defaultInterview, app_evaluation = defaultEvaluation,
      timeline = [], app_offer = defaultOffer\<rparr>"

definition offeredApplication :: application where
  "offeredApplication =
     \<lparr>app_id = 2, app_job = 11, applicant = 5, employer = 7,
      status = ''offered'', coverLetter = ''Hello again'', resume = None, matchScore = Some 20,
      app_skills = [''JavaScript'', ''React''], app_experience = [], app_education = [],
      app_interview = defaultInterview, app_evaluation = defaultEvaluation,
      timeline = [\<lparr>action = ''offered'', date = 50, performedBy = Some 7,
                    entry_notes = Some ''Job offer made''\<rparr>],
      app_offer = defaultOffer\<rparr>"

definition pausedJob :: job where
  "pausedJob =
     \<lparr>job_id = 12, company = 7, job_location = None, requirements = None,
      jobType = ''part-time'', level = ''mid'', job_status = ''paused'', approved = True,
      applicationCount = 1\<rparr>"

definition pausedJobApplication :: application where
  "pausedJobApplication =
     \<lparr>app_id = 3, app_job = 12, applicant = 5, employer = 7,
      status = ''applied'', coverLetter = ''Hello there'', resume = None, matchScore = Some 20,
      app_skills = [''JavaScript'', ''React''], app_experience = [], app_education = [],
      app_interview = defaultInterview, app_evaluation = defaultEvaluation,
      timeline = [], app_offer = defaultOffer\<rparr>"

definition exampleDb :: db where
  "exampleDb = \<lparr>jobs = [reactJob, remoteJob, pausedJob],
                 applications = [exampleApplication, offeredApplication, pausedJobApplication]\<rparr>"

definition exampleClock :: "nat \<Rightarrow> jsDate" where
  "exampleClock k = 100 + k"

definition exampleApplyBody :: applyBody where
  "exampleApplyBody =
     \<lparr>ab_errors = [], jobId = 11, ab_coverLetter = ''Dear team'', ab_resume = None\<rparr>"

definition pausedApplyBody :: applyBody where
  "pausedApplyBody =
     \<lparr>ab_errors = [], jobId = 12, ab_coverLetter = ''Dear team, again'', ab_resume = None\<rparr>"

definition missingJobBody :: applyBody where
  "missingJobBody =
     \<lparr>ab_errors = [], jobId = 99, ab_coverLetter = ''Dear team'', ab_resume = None\<rparr>"


section \<open>Properties of the job-listing match score\<close>

lemma matchingSkills_length: "length (matchingSkills cs js) \<le> length cs"
  by (simp add: matchingSkills_def)

lemma skillScore_range: "0 \<le> skillScore cs js \<and> skillScore cs js \<le> 50"
proof (cases "length cs > 0 \<and> length js > 0")
  case False
  then show ?thesis by (auto simp add: skillScore_def)
next
  case True
  let ?m = "of_nat (length (matchingSkills cs js)) :: rat"
  let ?n = "of_nat (max (length cs) (length js)) :: rat"
  have "length (matchingSkills cs js) \<le> max (length cs) (length js)"
    using matchingSkills_length [of cs js] by simp
  then have le: "?m \<le> ?n"
    by (simp only: of_nat_le_iff)
  have pos: "0 < ?n" using True by (auto simp add: max_def)
  define q where "q = ?m / ?n"
  have q0: "0 \<le> q" unfolding q_def by simp
  have q1: "q \<le> 1" unfolding q_def using le pos by (simp add: divide_le_eq_1)
  have "skillScore cs js = q * 50"
    unfolding q_def using True by (simp add: skillScore_def)
  then show ?thesis using q0 q1 by simp
qed

lemma locationScore_range: "0 \<le> locationScore ul jl \<and> locationScore ul jl \<le> 20"
  by (simp add: locationScore_def split: option.splits)

lemma jobTypeScore_range: "0 \<le> jobTypeScore ts t \<and> jobTypeScore ts t \<le> 15"
  by (simp add: jobTypeScore_def)

lemma experienceScore_range: "0 \<le> experienceScore l n \<and> experienceScore l n \<le> 15"
  by (simp add: experienceScore_def)

lemma Math_round_range:
  "0 \<le> x \<Longrightarrow> x \<le> 100 \<Longrightarrow> 0 \<le> Math_round x \<and> Math_round x \<le> 100"
  unfolding Math_round_def by (simp add: le_floor_iff floor_le_iff)

lemma Math_round_of_int: "Math_round (of_int k) = k"
  unfolding Math_round_def by (rule floor_unique) simp_all

lemma Math_round_0: "Math_round 0 = 0"
  using Math_round_of_int [of 0] by simp

lemma Math_round_15: "Math_round 15 = 15"
  using Math_round_of_int [of 15] by simp

lemma Math_round_fifty_thirds: "Math_round (50 / 3) = 17"
  unfolding Math_round_def by (rule floor_unique) simp_all

lemma example_matchingSkills:
  "matchingSkills [''JavaScript'', ''React''] [''React'', ''Node.js'', ''MongoDB''] = [''React'']"
  by (simp add: matchingSkills_def skillMatches_def toLowerCase_def lowerChar_def)

lemma example_skillScore:
  "skillScore [''JavaScript'', ''React''] [''React'', ''Node.js'', ''MongoDB''] = 50 / 3"
  by (simp add: skillScore_def example_matchingSkills)

text \<open>
  C3, as the code has it. For a job marked remote the location component of the job-listing
  match score is exactly 20 for every candidate whose profile holds a location, whatever the
  location is; it is 0 when the candidate has no location, because the component is computed
  only when both locations are present.
\<close>

theorem remote_location_component:
  "job_location j = Some l \<Longrightarrow> remote l \<Longrightarrow>
     locationScore (userLocationOf u) (job_location j)
       = (if userLocationOf u = None then 0 else 20)"
  by (simp add: locationScore_def split: option.splits)

theorem remote_location_component_witness:
  "locationScore (userLocationOf limaCandidate) (job_location remoteJob) = 20
   \<and> locationScore (userLocationOf emptyCandidate) (job_location remoteJob) = 0"
proof -
  have j: "job_location remoteJob
            = Some \<lparr>city = Some ''Berlin'', state = None, country = Some ''Germany'',
                     remote = True\<rparr>"
    by (simp add: remoteJob_def)
  have r: "remote \<lparr>city = Some ''Berlin'', state = None, country = Some ''Germany'',
                    remote = True\<rparr>"
    by simp
  have "userLocationOf limaCandidate \<noteq> None"
    by (simp add: userLocationOf_def limaCandidate_def)
  moreover have "userLocationOf emptyCandidate = None"
    by (simp add: userLocationOf_def emptyCandidate_def)
  ultimately show ?thesis
    using remote_location_component [OF j r, of limaCandidate]
      remote_location_component [OF j r, of emptyCandidate]
    by simp
qed

text \<open>
  C3 as stated fails: the job \<open>remoteJob\<close> is marked remote, the candidate
  \<open>emptyCandidate\<close> has no location, and the location component is 0, not 20; the whole
  score is 15, which the experience band of an entry-level job contributes.
\<close>

theorem remote_without_candidate_location_counterexample:
  "(case job_location remoteJob of None \<Rightarrow> False | Some l \<Rightarrow> remote l)
   \<and> role emptyCandidate = ''candidate''
   \<and> locationScore (userLocationOf emptyCandidate) (job_location remoteJob) \<noteq> 20
   \<and> calculateJobMatch remoteJob emptyCandidate = Some 15"
  by (simp add: remoteJob_def emptyCandidate_def userLocationOf_def locationScore_def
      calculateJobMatch_def candidateSkills_def jobSkills_def skillScore_def
      preferredJobTypesOf_def jobTypeScore_def userExperience_def experienceScore_def
      Math_round_15)

text \<open>
  C7, as the code has it. For candidate skills JavaScript, React and job skills React,
  Node.js, MongoDB exactly one candidate skill matches (React), the divisor is
  \<open>max 2 3 = 3\<close>, the skill component is 50/3, and \<open>Math.round\<close> takes it to 17: a job and
  a candidate for which no other component contributes score 17.
\<close>

theorem example_skill_component:
  "matchingSkills [''JavaScript'', ''React''] [''React'', ''Node.js'', ''MongoDB''] = [''React'']
   \<and> max (length [''JavaScript'', ''React'']) (length [''React'', ''Node.js'', ''MongoDB'']) = 3
   \<and> skillScore [''JavaScript'', ''React''] [''React'', ''Node.js'', ''MongoDB''] = 50 / 3
   \<and> Math_round (skillScore [''JavaScript'', ''React''] [''React'', ''Node.js'', ''MongoDB'']) = 17
   \<and> calculateJobMatch reactJob reactCandidate = Some 17"
  by (simp add: example_matchingSkills example_skillScore Math_round_fifty_thirds
      calculateJobMatch_def reactJob_def reactCandidate_def candidateSkills_def jobSkills_def
      userLocationOf_def locationScore_def preferredJobTypesOf_def jobTypeScore_def
      userExperience_def experienceScore_def)

text \<open>
  C7 as stated fails: the rounded skill component of the example is not 16.
\<close>

theorem example_skill_component_counterexample:
  "Math_round (skillScore [''JavaScript'', ''React''] [''React'', ''Node.js'', ''MongoDB'']) \<noteq> 16
   \<and> calculateJobMatch reactJob reactCandidate \<noteq> Some 16"
  by (simp add: example_skillScore Math_round_fifty_thirds
      calculateJobMatch_def reactJob_def reactCandidate_def candidateSkills_def jobSkills_def
      userLocationOf_def locationScore_def preferredJobTypesOf_def jobTypeScore_def
      userExperience_def experienceScore_def)

text \<open>
  C8. For every job and every candidate \<open>calculateJobMatch\<close> returns a score, the score is an
  integer, and it lies between 0 and 100. The score is a function of the job and the
  candidate alone.
\<close>

theorem calculateJobMatch_range:
  "role u = ''candidate'' \<Longrightarrow>
     \<exists>s. calculateJobMatch j u = Some s \<and> 0 \<le> s \<and> s \<le> 100"
proof -
  assume r: "role u = ''candidate''"
  let ?x = "0 + skillScore (candidateSkills u) (jobSkills j)
                + locationScore (userLocationOf u) (job_location j)
                + jobTypeScore (preferredJobTypesOf u) (jobType j)
                + experienceScore (level j) (userExperience u)"
  have "0 \<le> ?x \<and> ?x \<le> 100"
    using skillScore_range [of "candidateSkills u" "jobSkills j"]
      locationScore_range [of "userLocationOf u" "job_location j"]
      jobTypeScore_range [of "preferredJobTypesOf u" "jobType j"]
      experienceScore_range [of "level j" "userExperience u"]
    by linarith
  then have "0 \<le> Math_round ?x \<and> Math_round ?x \<le> 100"
    using Math_round_range by blast
  then show ?thesis using r by (simp add: calculateJobMatch_def)
qed

theorem calculateJobMatch_range_witness:
  "role limaCandidate = ''candidate''
   \<and> (\<exists>s. calculateJobMatch remoteJob limaCandidate = Some s \<and> 0 \<le> s \<and> s \<le> 100)"
proof -
  have r: "role limaCandidate = ''candidate''" by (simp add: limaCandidate_def)
  show ?thesis using r calculateJobMatch_range [OF r, of remoteJob] by simp
qed

text \<open>
  C10. A candidate with no skills, no location, no preferred job types and no experience
  scores 15 on a job whose level is entry or junior and 0 on a job of any other level,
  whether the job is remote or not.
\<close>

theorem empty_profile_score:
  "role u = ''candidate'' \<Longrightarrow> candidateSkills u = [] \<Longrightarrow> userLocationOf u = None \<Longrightarrow>
   preferredJobTypesOf u = [] \<Longrightarrow> userExperience u = 0 \<Longrightarrow>
   calculateJobMatch j u = Some (if level j = ''entry'' \<or> level j = ''junior'' then 15 else 0)"
  by (simp add: calculateJobMatch_def skillScore_def locationScore_def jobTypeScore_def
      experienceScore_def Math_round_0 Math_round_15)

theorem empty_profile_score_witness:
  "calculateJobMatch remoteJob emptyCandidate = Some 15
   \<and> calculateJobMatch reactJob emptyCandidate = Some 0"
proof -
  have h: "role emptyCandidate = ''candidate''" "candidateSkills emptyCandidate = []"
    "userLocationOf emptyCandidate = None" "preferredJobTypesOf emptyCandidate = []"
    "userExperience emptyCandidate = 0"
    by (simp_all add: emptyCandidate_def candidateSkills_def userLocationOf_def
        preferredJobTypesOf_def userExperience_def)
  have "level remoteJob = ''entry''" "level reactJob = ''senior''"
    by (simp_all add: remoteJob_def reactJob_def)
  then show ?thesis
    using empty_profile_score [OF h, of remoteJob] empty_profile_score [OF h, of reactJob]
    by simp
qed

section \<open>Properties of the status updates\<close>

lemma reviewing_not_timeline_action: "''reviewing'' \<notin> set timelineActionEnum"
  by (simp add: timelineActionEnum_def)

lemma updateStatus_reviewing:
  "updateStatus t1 t2 d x ''reviewing'' actor nts = Inl ValidationError"
  by (simp add: updateStatus_def save_def pushTimeline_def setStatus_def
      validateApplication_def validTimelineEntry_def reviewing_not_timeline_action)

lemma updateStatus_result:
  fixes x :: applicationDoc
  defines "a' \<equiv> \<lambda>t1 t2 s actor nts. (doc x)\<lparr>status := s,
                 timeline := timeline (doc x) @
                    (if statusModified x \<or> status (doc x) \<noteq> s
                     then [\<lparr>action = s, date = t1, performedBy = Some actor,
                            entry_notes = Some (case nts of None \<Rightarrow> [] | Some n \<Rightarrow> n)\<rparr>,
                           \<lparr>action = s, date = t2, performedBy = Some (employer (doc x)),
                            entry_notes = None\<rparr>]
                     else [\<lparr>action = s, date = t1, performedBy = Some actor,
                            entry_notes = Some (case nts of None \<Rightarrow> [] | Some n \<Rightarrow> n)\<rparr>])\<rparr>"
  assumes v: "validateApplication (doc x)" and n: "\<not> isNew x"
    and s1: "s \<in> set statusEnum" and s2: "s \<in> set timelineActionEnum"
  shows "updateStatus t1 t2 d x s actor nts =
      Inr (x\<lparr>doc := a' t1 t2 s actor nts, statusModified := False, isNew := False\<rparr>,
           d\<lparr>applications := map (\<lambda>b. if app_id b = app_id (doc x) then a' t1 t2 s actor nts else b)
                                  (applications d)\<rparr>)"
proof -
  have ne: "s \<noteq> []" using s1 by (auto simp add: statusEnum_def)
  show ?thesis using v n s1 s2 ne
    by (simp add: updateStatus_def save_def pushTimeline_def setStatus_def preSave_def
      validateApplication_def validTimelineEntry_def Let_def a'_def)
qed

lemma find_replaced:
  "find (\<lambda>b. app_id b = i) as = Some a \<Longrightarrow> app_id a' = app_id a \<Longrightarrow>
   find (\<lambda>b. app_id b = i) (map (\<lambda>b. if app_id b = app_id a then a' else b) as) = Some a'"
proof (induction as)
  case Nil
  then show ?case by simp
next
  case (Cons b bs)
  show ?case
  proof (cases "app_id b = i")
    case True
    then have "b = a" using Cons.prems(1) by simp
    then show ?thesis using True Cons.prems(2) by simp
  next
    case False
    then have f: "find (\<lambda>b. app_id b = i) bs = Some a" using Cons.prems(1) by simp
    then have "app_id a = i" by (auto simp add: find_Some_iff)
    then show ?thesis using False Cons.IH [OF f Cons.prems(2)] Cons.prems(2) by auto
  qed
qed

lemma find_id: "findApplicationById d i = Some a \<Longrightarrow> app_id a = i"
  by (auto simp add: findApplicationById_def find_Some_iff)

lemma findApplicationById_replaced:
  "findApplicationById d i = Some a \<Longrightarrow> app_id a' = app_id a \<Longrightarrow>
   findApplicationById
     (d\<lparr>applications := map (\<lambda>b. if app_id b = app_id a then a' else b) (applications d)\<rparr>) i
     = Some a'"
  by (simp add: findApplicationById_def find_replaced)

text \<open>What every handler does after its checks: the update, then the response with the
  document read back.\<close>

lemma update_and_respond:
  assumes f: "findApplicationById d i = Some a"
    and x: "app_id (doc x) = app_id a" "\<not> isNew x" "validateApplication (doc x)"
    and s: "s \<in> set statusEnum" "s \<in> set timelineActionEnum"
  shows "\<exists>a' d'.
     (case updateStatus ta tb d x s actor nts of
        Inl e \<Rightarrow> (serverError, d)
      | Inr (y, d') \<Rightarrow> ((200, ApplicationBody msg (findApplicationById d' (app_id a))), d'))
       = ((200, ApplicationBody msg (Some a')), d')
     \<and> findApplicationById d' i = Some a'
     \<and> a' = (doc x)\<lparr>status := s, timeline := timeline a'\<rparr>
     \<and> timeline a' = timeline (doc x) @
          (if statusModified x \<or> status (doc x) \<noteq> s
           then [\<lparr>action = s, date = ta, performedBy = Some actor,
                  entry_notes = Some (case nts of None \<Rightarrow> [] | Some n \<Rightarrow> n)\<rparr>,
                 \<lparr>action = s, date = tb, performedBy = Some (employer (doc x)),
                  entry_notes = None\<rparr>]
           else [\<lparr>action = s, date = ta, performedBy = Some actor,
                  entry_notes = Some (case nts of None \<Rightarrow> [] | Some n \<Rightarrow> n)\<rparr>])
     \<and> d' = d\<lparr>applications :=
                   map (\<lambda>b. if app_id b = app_id a then a' else b) (applications d)\<rparr>"
proof -
  define a' where "a' = (doc x)\<lparr>status := s,
     timeline := timeline (doc x) @
          (if statusModified x \<or> status (doc x) \<noteq> s
           then [\<lparr>action = s, date = ta, performedBy = Some actor,
                  entry_notes = Some (case nts of None \<Rightarrow> [] | Some n \<Rightarrow> n)\<rparr>,
                 \<lparr>action = s, date = tb, performedBy = Some (employer (doc x)),
                  entry_notes = None\<rparr>]
           else [\<lparr>action = s, date = ta, performedBy = Some actor,
                  entry_notes = Some (case nts of None \<Rightarrow> [] | Some n \<Rightarrow> n)\<rparr>])\<rparr>"
  define d' where "d' = d\<lparr>applications :=
                   map (\<lambda>b. if app_id b = app_id a then a' else b) (applications d)\<rparr>"
  have u: "updateStatus ta tb d x s actor nts
             = Inr (x\<lparr>doc := a', statusModified := False, isNew := False\<rparr>, d')"
    unfolding a'_def d'_def x(1) [symmetric] by (rule updateStatus_result [OF x(3) x(2) s])
  have ida: "app_id a' = app_id a" using x(1) by (simp add: a'_def)
  have ia: "app_id a = i" by (rule find_id [OF f])
  have fr: "findApplicationById d' i = Some a'"
    unfolding d'_def by (rule findApplicationById_replaced [OF f ida])
  have shape: "a' = (doc x)\<lparr>status := s, timeline := timeline a'\<rparr>"
    by (simp add: a'_def)
  have tl: "timeline a' = timeline (doc x) @
          (if statusModified x \<or> status (doc x) \<noteq> s
           then [\<lparr>action = s, date = ta, performedBy = Some actor,
                  entry_notes = Some (case nts of None \<Rightarrow> [] | Some n \<Rightarrow> n)\<rparr>,
                 \<lparr>action = s, date = tb, performedBy = Some (employer (doc x)),
                  entry_notes = None\<rparr>]
           else [\<lparr>action = s, date = ta, performedBy = Some actor,
                  entry_notes = Some (case nts of None \<Rightarrow> [] | Some n \<Rightarrow> n)\<rparr>])"
    by (simp add: a'_def)
  have resp: "(case updateStatus ta tb d x s actor nts of
        Inl e \<Rightarrow> (serverError, d)
      | Inr (y, d') \<Rightarrow> ((200, ApplicationBody msg (findApplicationById d' (app_id a))), d'))
       = ((200, ApplicationBody msg (Some a')), d')"
    using fr ia by (simp add: u)
  show ?thesis
    using resp fr shape tl d'_def by blast
qed


lemma hired_enums: "''hired'' \<in> set statusEnum" "''hired'' \<in> set timelineActionEnum"
  by (simp_all add: statusEnum_def timelineActionEnum_def)

lemma withdrawn_enums:
  "''withdrawn'' \<in> set statusEnum" "''withdrawn'' \<in> set timelineActionEnum"
  by (simp_all add: statusEnum_def timelineActionEnum_def)

lemma status_is_action:
  "s \<in> set statusEnum \<Longrightarrow> s \<noteq> ''reviewing'' \<Longrightarrow> s \<in> set timelineActionEnum"
  by (auto simp add: statusEnum_def timelineActionEnum_def)

subsection \<open>What the handlers answer\<close>

text \<open>
  A status outside the enum is rejected with 400 before anything is read. An authorized
  update to one of the eight statuses that are also timeline actions is accepted: the entry of
  \<open>updateStatus\<close> is appended, followed by the entry of the pre-save hook when the status
  changed. The guards of accept-offer and withdraw answer without touching the database.
\<close>

lemma putStatus_illegal_status:
  "employerMiddleware u \<Longrightarrow> s \<notin> set statusEnum \<Longrightarrow>
   putStatus now d u i \<lparr>body_status = Some s, body_notes = n\<rparr> = ((400, Errors), d)"
  by (simp add: putStatus_def)

lemma putStatus_missing_status:
  "employerMiddleware u \<Longrightarrow>
   putStatus now d u i \<lparr>body_status = None, body_notes = n\<rparr> = ((400, Errors), d)"
  by (simp add: putStatus_def)

lemma putStatus_accepted:
  assumes m: "employerMiddleware u" and f: "findApplicationById d i = Some a"
    and own: "employer a = user_id u \<or> role u = ''admin''"
    and v: "validateApplication a"
    and s: "s \<in> set statusEnum" "s \<noteq> ''reviewing''"
  shows "\<exists>a' d'.
     putStatus now d u i \<lparr>body_status = Some s, body_notes = n\<rparr>
       = ((200, ApplicationBody ''Application status updated successfully'' (Some a')), d')
     \<and> findApplicationById d' i = Some a'
     \<and> status a' = s
     \<and> timeline a' = timeline a @
          (if status a \<noteq> s
           then [\<lparr>action = s, date = now 0, performedBy = Some (user_id u),
                  entry_notes = Some (case n of None \<Rightarrow> [] | Some t \<Rightarrow> t)\<rparr>,
                 \<lparr>action = s, date = now 1, performedBy = Some (employer a),
                  entry_notes = None\<rparr>]
           else [\<lparr>action = s, date = now 0, performedBy = Some (user_id u),
                  entry_notes = Some (case n of None \<Rightarrow> [] | Some t \<Rightarrow> t)\<rparr>])"
proof -
  have x: "app_id (doc (loaded a)) = app_id a" "\<not> isNew (loaded a)"
    "validateApplication (doc (loaded a))"
    using v by (simp_all add: loaded_def)
  have s2: "s \<in> set timelineActionEnum" using s by (rule status_is_action)
  obtain a' d' where
    r: "(case updateStatus (now 0) (now 1) d (loaded a) s (user_id u) n of
        Inl e \<Rightarrow> (serverError, d)
      | Inr (y, d') \<Rightarrow> ((200, ApplicationBody ''Application status updated successfully''
                            (findApplicationById d' (app_id a))), d'))
       = ((200, ApplicationBody ''Application status updated successfully'' (Some a')), d')"
    and fr: "findApplicationById d' i = Some a'"
    and shape: "a' = (doc (loaded a))\<lparr>status := s, timeline := timeline a'\<rparr>"
    and tl: "timeline a' = timeline (doc (loaded a)) @
          (if statusModified (loaded a) \<or> status (doc (loaded a)) \<noteq> s
           then [\<lparr>action = s, date = now 0, performedBy = Some (user_id u),
                  entry_notes = Some (case n of None \<Rightarrow> [] | Some n \<Rightarrow> n)\<rparr>,
                 \<lparr>action = s, date = now 1, performedBy = Some (employer (doc (loaded a))),
                  entry_notes = None\<rparr>]
           else [\<lparr>action = s, date = now 0, performedBy = Some (user_id u),
                  entry_notes = Some (case n of None \<Rightarrow> [] | Some n \<Rightarrow> n)\<rparr>])"
    using update_and_respond [OF f x s(1) s2, where ta = "now 0" and tb = "now 1"
        and actor = "user_id u" and nts = n
        and msg = "''Application status updated successfully''"]
    by blast
  have res: "putStatus now d u i \<lparr>body_status = Some s, body_notes = n\<rparr>
      = ((200, ApplicationBody ''Application status updated successfully'' (Some a')), d')"
    using m f own s(1) r by (auto simp add: putStatus_def simp del: One_nat_def)
  have s': "status a' = s" using arg_cong [OF shape, of status] by simp
  have t': "timeline a' = timeline a @
          (if status a \<noteq> s
           then [\<lparr>action = s, date = now 0, performedBy = Some (user_id u),
                  entry_notes = Some (case n of None \<Rightarrow> [] | Some t \<Rightarrow> t)\<rparr>,
                 \<lparr>action = s, date = now 1, performedBy = Some (employer a),
                  entry_notes = None\<rparr>]
           else [\<lparr>action = s, date = now 0, performedBy = Some (user_id u),
                  entry_notes = Some (case n of None \<Rightarrow> [] | Some t \<Rightarrow> t)\<rparr>])"
    using tl by (simp add: loaded_def)
  show ?thesis using res fr s' t' by blast
qed

lemma acceptOffer_not_applicant:
  "candidateMiddleware u \<Longrightarrow> findApplicationById d i = Some a \<Longrightarrow> applicant a \<noteq> user_id u \<Longrightarrow>
   acceptOffer now d u i
     = ((403, Message ''Not authorized to accept offer for this application''), d)"
  by (simp add: acceptOffer_def)

lemma acceptOffer_not_offered:
  "candidateMiddleware u \<Longrightarrow> findApplicationById d i = Some a \<Longrightarrow> applicant a = user_id u \<Longrightarrow>
   status a \<noteq> ''offered'' \<Longrightarrow>
   acceptOffer now d u i = ((400, Message ''No offer to accept''), d)"
  by (simp add: acceptOffer_def)

lemma withdraw_refused:
  "candidateMiddleware u \<Longrightarrow> findApplicationById d i = Some a \<Longrightarrow> applicant a = user_id u \<Longrightarrow>
   status a = ''hired'' \<or> status a = ''withdrawn'' \<Longrightarrow>
   withdraw now d u i = ((400, Message ''Cannot withdraw application in current status''), d)"
  by (auto simp add: withdraw_def)

text \<open>
  C1, evaluated on the code. When \<open>updateStatus\<close> is accepted for a stored document and the
  new status differs from the current one, the timeline grows by two entries, not one: the
  entry the method pushes, and a second entry with the same action that the pre-save hook
  pushes because the status path is modified. The entries already present keep their place.
\<close>

theorem updateStatus_changed_status_appends_two:
  assumes v: "validateApplication (doc x)" and n: "\<not> isNew x"
    and s: "s \<in> set statusEnum" "s \<in> set timelineActionEnum"
    and ch: "status (doc x) \<noteq> s"
  shows "\<exists>y d'. updateStatus t1 t2 d x s actor nts = Inr (y, d')
     \<and> timeline (doc y) = timeline (doc x) @
          [\<lparr>action = s, date = t1, performedBy = Some actor,
            entry_notes = Some (case nts of None \<Rightarrow> [] | Some n \<Rightarrow> n)\<rparr>,
           \<lparr>action = s, date = t2, performedBy = Some (employer (doc x)),
            entry_notes = None\<rparr>]
     \<and> length (timeline (doc y)) = length (timeline (doc x)) + 2"
  using ch by (simp add: updateStatus_result [OF v n s])

theorem updateStatus_changed_status_appends_two_witness:
  "\<exists>y d'. updateStatus 100 101 exampleDb (loaded exampleApplication) ''shortlisted'' 7 None
             = Inr (y, d')
     \<and> timeline (doc y) =
          [\<lparr>action = ''shortlisted'', date = 100, performedBy = Some 7, entry_notes = Some []\<rparr>,
           \<lparr>action = ''shortlisted'', date = 101, performedBy = Some 7, entry_notes = None\<rparr>]
     \<and> length (timeline (doc y)) = 2"
proof -
  have v: "validateApplication (doc (loaded exampleApplication))"
    by (simp add: loaded_def exampleApplication_def validateApplication_def statusEnum_def
        validMatchScore_def defaultInterview_def interviewTypeEnum_def validEvaluation_def
        validRating_def defaultEvaluation_def)
  have n: "\<not> isNew (loaded exampleApplication)" by (simp add: loaded_def)
  have s: "''shortlisted'' \<in> set statusEnum" "''shortlisted'' \<in> set timelineActionEnum"
    by (simp_all add: statusEnum_def timelineActionEnum_def)
  have ch: "status (doc (loaded exampleApplication)) \<noteq> ''shortlisted''"
    by (simp add: loaded_def exampleApplication_def)
  have e: "timeline (doc (loaded exampleApplication)) = []"
    "employer (doc (loaded exampleApplication)) = 7"
    by (simp_all add: loaded_def exampleApplication_def)
  obtain y d' where
    "updateStatus 100 101 exampleDb (loaded exampleApplication) ''shortlisted'' 7 None
       = Inr (y, d')"
    "timeline (doc y) = timeline (doc (loaded exampleApplication)) @
          [\<lparr>action = ''shortlisted'', date = 100, performedBy = Some 7,
            entry_notes = Some (case None of None \<Rightarrow> [] | Some n \<Rightarrow> n)\<rparr>,
           \<lparr>action = ''shortlisted'', date = 101,
            performedBy = Some (employer (doc (loaded exampleApplication))),
            entry_notes = None\<rparr>]"
    using updateStatus_changed_status_appends_two [OF v n s ch, of 100 101 exampleDb 7 None]
    by blast
  then show ?thesis by (simp add: e)
qed

text \<open>
  C2, evaluated on the code. The status \<open>reviewing\<close> is one of the nine values the route and
  the status path accept, but it is not among the actions of a timeline entry. An authorized
  update to \<open>reviewing\<close> therefore fails when the document is saved: the response is the 500
  of the handler's catch block and nothing is stored.
\<close>

theorem putStatus_reviewing:
  "employerMiddleware u \<Longrightarrow> findApplicationById d i = Some a \<Longrightarrow>
   employer a = user_id u \<or> role u = ''admin'' \<Longrightarrow>
   putStatus now d u i \<lparr>body_status = Some ''reviewing'', body_notes = n\<rparr> = (serverError, d)"
  by (auto simp add: putStatus_def statusEnum_def updateStatus_reviewing)

theorem putStatus_reviewing_witness:
  "putStatus exampleClock exampleDb employerUser 1
      \<lparr>body_status = Some ''reviewing'', body_notes = None\<rparr>
     = ((500, Message ''Server error''), exampleDb)"
proof -
  have m: "employerMiddleware employerUser"
    by (simp add: employerMiddleware_def employerUser_def)
  have f: "findApplicationById exampleDb 1 = Some exampleApplication"
    by (simp add: findApplicationById_def exampleDb_def exampleApplication_def)
  have o: "employer exampleApplication = user_id employerUser \<or> role employerUser = ''admin''"
    by (simp add: exampleApplication_def employerUser_def)
  show ?thesis
    using putStatus_reviewing [OF m f o, of exampleClock None] by (simp add: serverError_def)
qed

text \<open>
  C4, evaluated on the code. When the applicant accepts an offer on an application whose
  status is \<open>offered\<close>, the request succeeds, the offer is marked accepted at the current
  time and the status becomes \<open>hired\<close>; the timeline grows by two entries, the one of
  \<open>updateStatus\<close> and the one of the pre-save hook.
\<close>

theorem acceptOffer_offered:
  assumes c: "candidateMiddleware u" and f: "findApplicationById d i = Some a"
    and own: "applicant a = user_id u" and st: "status a = ''offered''"
    and v: "validateApplication a"
  shows "\<exists>a' d'.
     acceptOffer now d u i = ((200, ApplicationBody ''Offer accepted successfully'' (Some a')), d')
     \<and> findApplicationById d' i = Some a'
     \<and> status a' = ''hired''
     \<and> accepted (app_offer a') \<and> acceptedAt (app_offer a') = Some (now 0)
     \<and> timeline a' = timeline a @
          [\<lparr>action = ''hired'', date = now 1, performedBy = Some (user_id u),
            entry_notes = Some ''Offer accepted''\<rparr>,
           \<lparr>action = ''hired'', date = now 2, performedBy = Some (employer a),
            entry_notes = None\<rparr>]
     \<and> length (timeline a') = length (timeline a) + 2"
proof -
  let ?x = "(loaded a)\<lparr>doc := a\<lparr>app_offer :=
                      (app_offer a)\<lparr>accepted := True, acceptedAt := Some (now 0)\<rparr>\<rparr>\<rparr>"
  have x: "app_id (doc ?x) = app_id a" "\<not> isNew ?x" "validateApplication (doc ?x)"
    using v by (simp_all add: loaded_def validateApplication_def)
  obtain a' d' where
    r: "(case updateStatus (now 1) (now 2) d ?x ''hired'' (user_id u) (Some ''Offer accepted'') of
        Inl e \<Rightarrow> (serverError, d)
      | Inr (y, d') \<Rightarrow> ((200, ApplicationBody ''Offer accepted successfully''
                            (findApplicationById d' (app_id a))), d'))
       = ((200, ApplicationBody ''Offer accepted successfully'' (Some a')), d')"
    and fr: "findApplicationById d' i = Some a'"
    and shape: "a' = (doc ?x)\<lparr>status := ''hired'', timeline := timeline a'\<rparr>"
    and tl: "timeline a' = timeline (doc ?x) @
          (if statusModified ?x \<or> status (doc ?x) \<noteq> ''hired''
           then [\<lparr>action = ''hired'', date = now 1, performedBy = Some (user_id u),
                  entry_notes = Some (case Some ''Offer accepted'' of None \<Rightarrow> [] | Some n \<Rightarrow> n)\<rparr>,
                 \<lparr>action = ''hired'', date = now 2, performedBy = Some (employer (doc ?x)),
                  entry_notes = None\<rparr>]
           else [\<lparr>action = ''hired'', date = now 1, performedBy = Some (user_id u),
                  entry_notes = Some (case Some ''Offer accepted'' of None \<Rightarrow> [] | Some n \<Rightarrow> n)\<rparr>])"
    using update_and_respond [OF f x hired_enums, where ta = "now 1" and tb = "now 2"
        and actor = "user_id u" and nts = "Some ''Offer accepted''"
        and msg = "''Offer accepted successfully''"]
    by blast
  have res: "acceptOffer now d u i
      = ((200, ApplicationBody ''Offer accepted successfully'' (Some a')), d')"
    using c f own st r by (simp add: acceptOffer_def Let_def del: One_nat_def)
  have s': "status a' = ''hired''" using arg_cong [OF shape, of status] by simp
  have o': "app_offer a' = (app_offer a)\<lparr>accepted := True, acceptedAt := Some (now 0)\<rparr>"
    using arg_cong [OF shape, of app_offer] by (simp add: loaded_def)
  have t': "timeline a' = timeline a @
          [\<lparr>action = ''hired'', date = now 1, performedBy = Some (user_id u),
            entry_notes = Some ''Offer accepted''\<rparr>,
           \<lparr>action = ''hired'', date = now 2, performedBy = Some (employer a),
            entry_notes = None\<rparr>]"
    using tl st by (simp add: loaded_def)
  show ?thesis using res fr s' o' t' by simp
qed

theorem acceptOffer_offered_witness:
  "\<exists>a' d'.
     acceptOffer exampleClock exampleDb reactCandidate 2
       = ((200, ApplicationBody ''Offer accepted successfully'' (Some a')), d')
     \<and> findApplicationById d' 2 = Some a'
     \<and> status a' = ''hired''
     \<and> accepted (app_offer a') \<and> acceptedAt (app_offer a') = Some 100
     \<and> timeline a' =
          [\<lparr>action = ''offered'', date = 50, performedBy = Some 7,
            entry_notes = Some ''Job offer made''\<rparr>,
           \<lparr>action = ''hired'', date = 101, performedBy = Some 5,
            entry_notes = Some ''Offer accepted''\<rparr>,
           \<lparr>action = ''hired'', date = 102, performedBy = Some 7, entry_notes = None\<rparr>]
     \<and> length (timeline a') = 3"
proof -
  have c: "candidateMiddleware reactCandidate"
    by (simp add: candidateMiddleware_def reactCandidate_def)
  have f: "findApplicationById exampleDb 2 = Some offeredApplication"
    by (simp add: findApplicationById_def exampleDb_def exampleApplication_def
        offeredApplication_def)
  have own: "applicant offeredApplication = user_id reactCandidate"
    by (simp add: offeredApplication_def reactCandidate_def)
  have st: "status offeredApplication = ''offered''"
    by (simp add: offeredApplication_def)
  have v: "validateApplication offeredApplication"
    by (simp add: offeredApplication_def validateApplication_def statusEnum_def
        validMatchScore_def defaultInterview_def interviewTypeEnum_def validTimelineEntry_def
        timelineActionEnum_def validEvaluation_def validRating_def defaultEvaluation_def)
  have e: "timeline offeredApplication =
             [\<lparr>action = ''offered'', date = 50, performedBy = Some 7,
               entry_notes = Some ''Job offer made''\<rparr>]"
    "employer offeredApplication = 7" "user_id reactCandidate = 5"
    by (simp_all add: offeredApplication_def reactCandidate_def)
  obtain a' d' where
    "acceptOffer exampleClock exampleDb reactCandidate 2
       = ((200, ApplicationBody ''Offer accepted successfully'' (Some a')), d')"
    "findApplicationById d' 2 = Some a'"
    "status a' = ''hired''"
    "accepted (app_offer a')" "acceptedAt (app_offer a') = Some (exampleClock 0)"
    "timeline a' = timeline offeredApplication @
          [\<lparr>action = ''hired'', date = exampleClock 1,
            performedBy = Some (user_id reactCandidate),
            entry_notes = Some ''Offer accepted''\<rparr>,
           \<lparr>action = ''hired'', date = exampleClock 2,
            performedBy = Some (employer offeredApplication), entry_notes = None\<rparr>]"
    using acceptOffer_offered [OF c f own st v, of exampleClock]
    by blast
  then show ?thesis by (simp add: e exampleClock_def)
qed

section \<open>Properties of submissions\<close>

lemma submissionScore_formula:
  "submissionScore a =
     min (min (int (length (app_skills a)) * 10) 50
          + min (int (length (app_experience a)) * 5) 30
          + min (int (length (app_education a)) * 5) 20) 100"
  by (simp add: submissionScore_def Let_def)

lemma submissionScore_range: "0 \<le> submissionScore a \<and> submissionScore a \<le> 100"
  by (simp add: submissionScore_formula)

lemma submit_not_candidate:
  "\<not> candidateMiddleware u \<Longrightarrow> submitApplication now newId d u b = ((403, AccessDenied), d)"
  by (simp add: submitApplication_def)

lemma submit_invalid_body:
  "candidateMiddleware u \<Longrightarrow> ab_errors b \<noteq> [] \<Longrightarrow>
   submitApplication now newId d u b = ((400, Errors), d)"
  by (simp add: submitApplication_def)

lemma submit_job_missing:
  "candidateMiddleware u \<Longrightarrow> ab_errors b = [] \<Longrightarrow> findJobById d (jobId b) = None \<Longrightarrow>
   submitApplication now newId d u b = ((404, Message ''Job not found''), d)"
  by (simp add: submitApplication_def)

lemma submit_job_closed:
  "candidateMiddleware u \<Longrightarrow> ab_errors b = [] \<Longrightarrow> findJobById d (jobId b) = Some j \<Longrightarrow>
   job_status j \<noteq> ''active'' \<or> \<not> approved j \<Longrightarrow>
   submitApplication now newId d u b
     = ((400, Message ''This job is not accepting applications''), d)"
  by (auto simp add: submitApplication_def)

lemma submit_duplicate:
  "candidateMiddleware u \<Longrightarrow> ab_errors b = [] \<Longrightarrow> findJobById d (jobId b) = Some j \<Longrightarrow>
   job_status j = ''active'' \<Longrightarrow> approved j \<Longrightarrow>
   findOneApplication d (jobId b) (user_id u) = Some e \<Longrightarrow>
   submitApplication now newId d u b
     = ((400, Message ''You have already applied to this job''), d)"
  by (simp add: submitApplication_def)

lemma map_replace_absent:
  "\<not> list_ex (\<lambda>b. app_id b = i) as \<Longrightarrow> map (\<lambda>b. if app_id b = i then a else b) as = as"
  by (induction as) auto

lemma find_appended:
  "\<not> list_ex (\<lambda>b. app_id b = i) as \<Longrightarrow> app_id a = i \<Longrightarrow>
   find (\<lambda>b. app_id b = i) (as @ [a]) = Some a"
  by (induction as) auto

lemma validate_new:
  "ab_coverLetter b \<noteq> [] \<Longrightarrow> length (ab_coverLetter b) \<le> 2000 \<Longrightarrow>
   validateApplication (doc (newApplication newId j u b))"
  by (simp add: newApplication_def validateApplication_def statusEnum_def validMatchScore_def
      defaultInterview_def interviewTypeEnum_def validEvaluation_def validRating_def
      defaultEvaluation_def)

lemma submit_success:
  assumes c: "candidateMiddleware u" and e: "ab_errors b = []"
    and j: "findJobById d (jobId b) = Some j" "job_status j = ''active''" "approved j"
    and vj: "validateJob j"
    and nodup: "findOneApplication d (jobId b) (user_id u) = None"
    and fresh: "\<not> list_ex (\<lambda>a. app_id a = newId) (applications d)"
    and cl: "ab_coverLetter b \<noteq> []" "length (ab_coverLetter b) \<le> 2000"
  shows "submitApplication now newId d u b =
     ((201, ApplicationBody ''Application submitted successfully''
              (Some ((doc (newApplication newId j u b))
                       \<lparr>matchScore := Some (submissionScore (doc (newApplication newId j u b)))\<rparr>))),
      d\<lparr>jobs := map (\<lambda>x. if job_id x = job_id j then j\<lparr>applicationCount := applicationCount j + 1\<rparr> else x) (jobs d),
        applications := applications d @
           [(doc (newApplication newId j u b))
               \<lparr>matchScore := Some (submissionScore (doc (newApplication newId j u b)))\<rparr>]\<rparr>)"
proof -
  let ?n = "newApplication newId j u b"
  let ?a = "(doc ?n)\<lparr>matchScore := Some (submissionScore (doc ?n))\<rparr>"
  have vn: "validateApplication (doc ?n)" using cl by (rule validate_new)
  have idn: "app_id (doc ?n) = newId" "app_job (doc ?n) = jobId b" "applicant (doc ?n) = user_id u"
    "isNew ?n" "\<not> statusModified ?n"
    by (simp_all add: newApplication_def)
  have "\<not> list_ex (\<lambda>a. app_job a = jobId b \<and> applicant a = user_id u) (applications d)"
    using nodup by (auto simp add: findOneApplication_def find_None_iff list_ex_iff)
  then have nv: "\<not> violatesUnique (applications d) (doc ?n)"
    using fresh by (auto simp add: violatesUnique_def idn list_ex_iff)
  have s1: "save (now 0) d ?n
      = Inr (?n\<lparr>statusModified := False, isNew := False\<rparr>,
             d\<lparr>applications := applications d @ [doc ?n]\<rparr>)"
    using vn nv idn by (simp add: save_def preSave_def Let_def)
  have va: "validateApplication ?a"
    using vn submissionScore_range [of "doc ?n"]
    by (simp add: validateApplication_def validMatchScore_def)
  have s2: "calculateMatchScore (now 1) (d\<lparr>applications := applications d @ [doc ?n]\<rparr>)
               (?n\<lparr>statusModified := False, isNew := False\<rparr>)
      = Inr (?n\<lparr>doc := ?a, statusModified := False, isNew := False\<rparr>,
             d\<lparr>applications := applications d @ [?a]\<rparr>)"
    using va fresh
    by (simp add: calculateMatchScore_def save_def preSave_def Let_def idn map_replace_absent
        del: One_nat_def)
  have s3: "incrementApplications (d\<lparr>applications := applications d @ [?a]\<rparr>) j
      = Inr (j\<lparr>applicationCount := applicationCount j + 1\<rparr>,
             d\<lparr>jobs := map (\<lambda>x. if job_id x = job_id j then j\<lparr>applicationCount := applicationCount j + 1\<rparr> else x) (jobs d),
               applications := applications d @ [?a]\<rparr>)"
    using vj by (simp add: incrementApplications_def validateJob_def Let_def)
  have fr: "find (\<lambda>b. app_id b = newId) (applications d @ [?a]) = Some ?a"
    using fresh by (simp add: find_appended idn)
  show ?thesis
    using c e j nodup
    by (simp add: submitApplication_def s1 s2 s3 findApplicationById_def fr idn del: One_nat_def)
qed


subsection \<open>The unique indexes are kept\<close>







lemma find_in_set: "findApplicationById d i = Some a \<Longrightarrow> a \<in> set (applications d)"
  by (auto simp add: findApplicationById_def find_Some_iff)














lemma submit_existing_unchanged:
  "findOneApplication d (jobId b) (user_id u) = Some e \<Longrightarrow>
   snd (submitApplication now newId d u b) = d
   \<and> 400 \<le> fst (fst (submitApplication now newId d u b))"
  by (auto simp add: submitApplication_def split: option.splits)

subsection \<open>The handlers as tasks\<close>

lemma updateStatus_in_memory:
  "updateStatus t1 t2 d x s actor nts = save t2 d (updateStatusInMemory t1 x s actor nts)"
  by (simp add: updateStatus_def updateStatusInMemory_def)

lemma updateStatusInMemory_key:
  "applicationKey (doc (updateStatusInMemory t x s actor nts)) = applicationKey (doc x)"
  "isNew (updateStatusInMemory t x s actor nts) = isNew x"
  "app_id (doc (updateStatusInMemory t x s actor nts)) = app_id (doc x)"
  by (simp_all add: updateStatusInMemory_def pushTimeline_def setStatus_def applicationKey_def)

lemma advanceTimes_Done: "advanceTimes n (Done r) d = (Done r, d)"
  by (induction n) simp_all

lemma advanceTimes_Suc:
  "advanceTimes (Suc n) t d = (case advance t d of (t', d') \<Rightarrow> advanceTimes n t' d')"
  by (simp add: case_prod_beta)

lemma advanceTimes_putStatus:
  "advanceTimes (Suc (Suc (Suc n))) (start (PutStatus now u i b)) d
     = (Done (fst (putStatus now d u i b)), snd (putStatus now d u i b))"
  by (auto simp add: advanceTimes_Suc advanceTimes_Done putStatus_def updateStatus_in_memory
      updateStatusInMemory_key loaded_def
      split: option.splits sum.splits simp del: One_nat_def advanceTimes.simps)

lemma advanceTimes_submit:
  "advanceTimes (Suc (Suc (Suc (Suc (Suc (Suc n)))))) (start (Submit now newId u b)) d
     = (Done (fst (submitApplication now newId d u b)), snd (submitApplication now newId d u b))"
  by (auto simp add: advanceTimes_Suc advanceTimes_Done submitApplication_def
      split: option.splits sum.splits simp del: One_nat_def advanceTimes.simps)


lemma advanceTimes_scheduleInterview:
  "advanceTimes (Suc (Suc (Suc n))) (start (ScheduleInterview now u i b)) d
     = (Done (fst (scheduleInterview now d u i b)), snd (scheduleInterview now d u i b))"
  by (auto simp add: advanceTimes_Suc advanceTimes_Done scheduleInterview_def
      updateStatus_in_memory updateStatusInMemory_key loaded_def Let_def
      split: option.splits sum.splits simp del: One_nat_def advanceTimes.simps)

lemma advanceTimes_evaluate:
  "advanceTimes (Suc (Suc (Suc n))) (start (Evaluate now u i b)) d
     = (Done (fst (evaluate now d u i b)), snd (evaluate now d u i b))"
  by (auto simp add: advanceTimes_Suc advanceTimes_Done evaluate_def loaded_def Let_def
      split: option.splits sum.splits simp del: One_nat_def advanceTimes.simps)

lemma advanceTimes_makeOffer:
  "advanceTimes (Suc (Suc (Suc n))) (start (MakeOffer now u i b)) d
     = (Done (fst (makeOffer now d u i b)), snd (makeOffer now d u i b))"
  by (auto simp add: advanceTimes_Suc advanceTimes_Done makeOffer_def
      updateStatus_in_memory updateStatusInMemory_key loaded_def Let_def
      split: option.splits sum.splits simp del: One_nat_def advanceTimes.simps)

lemma advanceTimes_acceptOffer:
  "advanceTimes (Suc (Suc (Suc n))) (start (AcceptOffer now u i)) d
     = (Done (fst (acceptOffer now d u i)), snd (acceptOffer now d u i))"
  by (auto simp add: advanceTimes_Suc advanceTimes_Done acceptOffer_def
      updateStatus_in_memory updateStatusInMemory_key loaded_def Let_def
      split: option.splits sum.splits simp del: One_nat_def advanceTimes.simps)

lemma advanceTimes_withdraw:
  "advanceTimes (Suc (Suc (Suc n))) (start (Withdraw now u i)) d
     = (Done (fst (withdraw now d u i)), snd (withdraw now d u i))"
  by (auto simp add: advanceTimes_Suc advanceTimes_Done withdraw_def
      updateStatus_in_memory updateStatusInMemory_key loaded_def Let_def
      split: option.splits sum.splits simp del: One_nat_def advanceTimes.simps)

text \<open>Every handler is the run of its task with nothing in between: six steps are enough.\<close>

lemma handle_is_uninterrupted_task:
  "advanceTimes 6 (start r) d = (Done (fst (handle r d)), snd (handle r d))"
proof -
  have six: "(6::nat) = Suc (Suc (Suc (Suc (Suc (Suc 0)))))" by simp
  show ?thesis
    unfolding six
    by (cases r)
      (simp_all only: handle.simps advanceTimes_submit advanceTimes_putStatus
        advanceTimes_scheduleInterview advanceTimes_evaluate advanceTimes_makeOffer
        advanceTimes_acceptOffer advanceTimes_withdraw)
qed

subsection \<open>The unique indexes are kept when requests interleave\<close>



lemma loaded_key_stored:
  "findApplicationById d i = Some a \<Longrightarrow>
   applicationKey a \<in> set (map applicationKey (applications d))"
  using find_in_set [of d i a] by force



lemma advance_read_keeps:
  assumes "snd (advance t d) = d"
    and "\<And>tm msg x. fst (advance t d) = Save tm msg x \<Longrightarrow>
            \<not> isNew x \<and> applicationKey (doc x) \<in> set (map applicationKey (applications d))"
    and "\<And>now j x. fst (advance t d) = SubmitSave now j x \<Longrightarrow> isNew x"
    and "\<And>now j x. fst (advance t d) \<noteq> SubmitScore now j x"
  shows "holdsStoredKey (snd (advance t d)) (fst (advance t d))"
  using assms by (cases "fst (advance t d)") auto







lemma example_lookups:
  "findJobById exampleDb 99 = None"
  "findJobById exampleDb 11 = Some remoteJob"
  "findJobById exampleDb 12 = Some pausedJob"
  "findOneApplication exampleDb 11 5 = Some offeredApplication"
  "findOneApplication exampleDb 12 5 = Some pausedJobApplication"
  "findOneApplication exampleDb 11 9 = None"
  by (simp_all add: findJobById_def findOneApplication_def exampleDb_def reactJob_def
      remoteJob_def pausedJob_def exampleApplication_def offeredApplication_def
      pausedJobApplication_def)



text \<open>
  C9. The score that \<open>calculateMatchScore\<close> assigns at submission time is
  \<open>min(skills.length*10, 50) + min(experience.length*5, 30) + min(education.length*5, 20)\<close>,
  capped at 100, and the method saves the document with that score. It is a computation of
  its own: for the job \<open>reactJob\<close> and the candidate \<open>reactCandidate\<close> the job-listing score is
  17 while the submission score of the candidate's application to that job is 20.
\<close>

theorem calculateMatchScore_formula:
  "submissionScore a =
     min (min (int (length (app_skills a)) * 10) 50
          + min (int (length (app_experience a)) * 5) 30
          + min (int (length (app_education a)) * 5) 20) 100
   \<and> calculateMatchScore now d x =
       save now d (x\<lparr>doc := (doc x)\<lparr>matchScore := Some
          (min (min (int (length (app_skills (doc x))) * 10) 50
                + min (int (length (app_experience (doc x))) * 5) 30
                + min (int (length (app_education (doc x))) * 5) 20) 100)\<rparr>\<rparr>)
   \<and> calculateJobMatch reactJob reactCandidate = Some 17
   \<and> submissionScore (doc (newApplication newId reactJob reactCandidate b)) = 20"
proof -
  have "calculateJobMatch reactJob reactCandidate = Some 17"
    by (simp add: example_skillScore Math_round_fifty_thirds
      calculateJobMatch_def reactJob_def reactCandidate_def candidateSkills_def jobSkills_def
      userLocationOf_def locationScore_def preferredJobTypesOf_def jobTypeScore_def
      userExperience_def experienceScore_def)
  moreover have "submissionScore (doc (newApplication newId reactJob reactCandidate b)) = 20"
    by (simp add: submissionScore_formula newApplication_def reactCandidate_def
        candidateSkills_def candidateExperience_def candidateEducation_def)
  ultimately show ?thesis
    by (simp add: submissionScore_formula [symmetric] calculateMatchScore_def)
qed

text \<open>
  C5, as the code has it. For a candidate whose request passes validation,
  \<open>POST /applications\<close> answers 404 when the referenced job is missing, 400 when the job is
  not active or not approved, and 400 when the caller already has an application for the
  job, storing nothing in each case; otherwise, when the new document passes the schema's
  validators and its identifier is fresh, it answers 201 with the created application, whose
  match score is the submission score of the candidate's profile.
\<close>

theorem submitApplication_responses:
  assumes c: "candidateMiddleware u" and e: "ab_errors b = []"
  shows
   "(findJobById d (jobId b) = None \<longrightarrow>
       submitApplication now newId d u b = ((404, Message ''Job not found''), d))
    \<and> (findJobById d (jobId b) = Some j \<and> (job_status j \<noteq> ''active'' \<or> \<not> approved j) \<longrightarrow>
       submitApplication now newId d u b
         = ((400, Message ''This job is not accepting applications''), d))
    \<and> (findJobById d (jobId b) = Some j \<and> job_status j = ''active'' \<and> approved j
        \<and> findOneApplication d (jobId b) (user_id u) = Some existing \<longrightarrow>
       submitApplication now newId d u b
         = ((400, Message ''You have already applied to this job''), d))
    \<and> (findJobById d (jobId b) = Some j \<and> job_status j = ''active'' \<and> approved j
        \<and> findOneApplication d (jobId b) (user_id u) = None
        \<and> validateJob j \<and> \<not> list_ex (\<lambda>a. app_id a = newId) (applications d)
        \<and> ab_coverLetter b \<noteq> [] \<and> length (ab_coverLetter b) \<le> 2000 \<longrightarrow>
       (\<exists>created d'.
          submitApplication now newId d u b
            = ((201, ApplicationBody ''Application submitted successfully'' (Some created)), d')
          \<and> findApplicationById d' newId = Some created
          \<and> app_job created = jobId b \<and> applicant created = user_id u
          \<and> status created = ''applied''
          \<and> matchScore created =
              Some (min (min (int (length (candidateSkills u)) * 10) 50
                         + min (int (length (candidateExperience u)) * 5) 30
                         + min (int (length (candidateEducation u)) * 5) 20) 100)))"
proof (intro conjI impI)
  assume "findJobById d (jobId b) = None"
  then show "submitApplication now newId d u b = ((404, Message ''Job not found''), d)"
    by (rule submit_job_missing [OF c e])
next
  assume "findJobById d (jobId b) = Some j \<and> (job_status j \<noteq> ''active'' \<or> \<not> approved j)"
  then show "submitApplication now newId d u b
         = ((400, Message ''This job is not accepting applications''), d)"
    using submit_job_closed [OF c e] by blast
next
  assume "findJobById d (jobId b) = Some j \<and> job_status j = ''active'' \<and> approved j
        \<and> findOneApplication d (jobId b) (user_id u) = Some existing"
  then show "submitApplication now newId d u b
         = ((400, Message ''You have already applied to this job''), d)"
    using submit_duplicate [OF c e] by blast
next
  assume h: "findJobById d (jobId b) = Some j \<and> job_status j = ''active'' \<and> approved j
        \<and> findOneApplication d (jobId b) (user_id u) = None
        \<and> validateJob j \<and> \<not> list_ex (\<lambda>a. app_id a = newId) (applications d)
        \<and> ab_coverLetter b \<noteq> [] \<and> length (ab_coverLetter b) \<le> 2000"
  let ?n = "doc (newApplication newId j u b)"
  let ?a = "?n\<lparr>matchScore := Some (submissionScore ?n)\<rparr>"
  let ?d = "d\<lparr>jobs := map (\<lambda>x. if job_id x = job_id j
                               then j\<lparr>applicationCount := applicationCount j + 1\<rparr> else x) (jobs d),
              applications := applications d @ [?a]\<rparr>"
  have r: "submitApplication now newId d u b
      = ((201, ApplicationBody ''Application submitted successfully'' (Some ?a)), ?d)"
    using h submit_success [OF c e, of d j newId now] by blast
  have fr: "findApplicationById ?d newId = Some ?a"
    using h by (simp add: findApplicationById_def find_appended newApplication_def)
  have f: "app_job ?a = jobId b" "applicant ?a = user_id u" "status ?a = ''applied''"
    by (simp_all add: newApplication_def)
  have m: "matchScore ?a =
              Some (min (min (int (length (candidateSkills u)) * 10) 50
                         + min (int (length (candidateExperience u)) * 5) 30
                         + min (int (length (candidateEducation u)) * 5) 20) 100)"
    by (simp add: submissionScore_formula newApplication_def)
  show "\<exists>created d'.
          submitApplication now newId d u b
            = ((201, ApplicationBody ''Application submitted successfully'' (Some created)), d')
          \<and> findApplicationById d' newId = Some created
          \<and> app_job created = jobId b \<and> applicant created = user_id u
          \<and> status created = ''applied''
          \<and> matchScore created =
              Some (min (min (int (length (candidateSkills u)) * 10) 50
                         + min (int (length (candidateExperience u)) * 5) 30
                         + min (int (length (candidateEducation u)) * 5) 20) 100)"
    using r fr f m by blast
qed

theorem submitApplication_responses_witness:
  "submitApplication exampleClock 4 exampleDb skilledCandidate missingJobBody
     = ((404, Message ''Job not found''), exampleDb)
   \<and> submitApplication exampleClock 4 exampleDb skilledCandidate pausedApplyBody
     = ((400, Message ''This job is not accepting applications''), exampleDb)
   \<and> submitApplication exampleClock 4 exampleDb reactCandidate exampleApplyBody
     = ((400, Message ''You have already applied to this job''), exampleDb)
   \<and> (\<exists>created d'.
        submitApplication exampleClock 4 exampleDb skilledCandidate exampleApplyBody
          = ((201, ApplicationBody ''Application submitted successfully'' (Some created)), d')
        \<and> findApplicationById d' 4 = Some created
        \<and> app_job created = 11 \<and> applicant created = 9 \<and> status created = ''applied''
        \<and> matchScore created = Some 45)"
proof -
  have c: "candidateMiddleware skilledCandidate" "candidateMiddleware reactCandidate"
    by (simp_all add: candidateMiddleware_def skilledCandidate_def reactCandidate_def)
  have e: "ab_errors missingJobBody = []" "ab_errors pausedApplyBody = []"
    "ab_errors exampleApplyBody = []"
    by (simp_all add: missingJobBody_def pausedApplyBody_def exampleApplyBody_def)
  have ids: "jobId missingJobBody = 99" "jobId pausedApplyBody = 12" "jobId exampleApplyBody = 11"
    "user_id skilledCandidate = 9" "user_id reactCandidate = 5"
    by (simp_all add: missingJobBody_def pausedApplyBody_def exampleApplyBody_def
        skilledCandidate_def reactCandidate_def)
  have A: "submitApplication exampleClock 4 exampleDb skilledCandidate missingJobBody
     = ((404, Message ''Job not found''), exampleDb)"
    using submitApplication_responses [OF c(1) e(1), where d = exampleDb]
    by (simp add: ids example_lookups)
  have B: "submitApplication exampleClock 4 exampleDb skilledCandidate pausedApplyBody
     = ((400, Message ''This job is not accepting applications''), exampleDb)"
    using submitApplication_responses [OF c(1) e(2), where d = exampleDb and j = pausedJob]
    by (simp add: ids example_lookups pausedJob_def)
  have C: "submitApplication exampleClock 4 exampleDb reactCandidate exampleApplyBody
     = ((400, Message ''You have already applied to this job''), exampleDb)"
    using submitApplication_responses [OF c(2) e(3), where d = exampleDb and j = remoteJob
        and existing = offeredApplication]
    by (simp add: ids example_lookups remoteJob_def)
  have p: "findJobById exampleDb (jobId exampleApplyBody) = Some remoteJob
        \<and> job_status remoteJob = ''active'' \<and> approved remoteJob
        \<and> findOneApplication exampleDb (jobId exampleApplyBody) (user_id skilledCandidate) = None
        \<and> validateJob remoteJob
        \<and> \<not> list_ex (\<lambda>a. app_id a = 4) (applications exampleDb)
        \<and> ab_coverLetter exampleApplyBody \<noteq> [] \<and> length (ab_coverLetter exampleApplyBody) \<le> 2000"
  proof -
    have "\<not> list_ex (\<lambda>a. app_id a = 4) (applications exampleDb)"
      by (simp add: exampleDb_def exampleApplication_def offeredApplication_def
          pausedJobApplication_def)
    moreover have "validateJob remoteJob \<and> job_status remoteJob = ''active'' \<and> approved remoteJob"
      by (simp add: remoteJob_def validateJob_def jobTypeEnum_def levelEnum_def
          jobStatusEnum_def)
    moreover have "ab_coverLetter exampleApplyBody \<noteq> []
        \<and> length (ab_coverLetter exampleApplyBody) \<le> 2000"
      by (simp add: exampleApplyBody_def)
    ultimately show ?thesis by (simp add: ids example_lookups)
  qed
  have l: "length (candidateSkills skilledCandidate) = 3"
    "length (candidateExperience skilledCandidate) = 2"
    "length (candidateEducation skilledCandidate) = 1"
    by (simp_all add: candidateSkills_def candidateExperience_def candidateEducation_def
        skilledCandidate_def)
  obtain created d' where
    "submitApplication exampleClock 4 exampleDb skilledCandidate exampleApplyBody
          = ((201, ApplicationBody ''Application submitted successfully'' (Some created)), d')"
    "findApplicationById d' 4 = Some created"
    "app_job created = jobId exampleApplyBody" "applicant created = user_id skilledCandidate"
    "status created = ''applied''"
    "matchScore created =
              Some (min (min (int (length (candidateSkills skilledCandidate)) * 10) 50
                         + min (int (length (candidateExperience skilledCandidate)) * 5) 30
                         + min (int (length (candidateEducation skilledCandidate)) * 5) 20) 100)"
    using submitApplication_responses [OF c(1) e(3), where d = exampleDb and j = remoteJob
        and now = exampleClock and newId = 4] p
    by blast
  then have D: "\<exists>created d'.
        submitApplication exampleClock 4 exampleDb skilledCandidate exampleApplyBody
          = ((201, ApplicationBody ''Application submitted successfully'' (Some created)), d')
        \<and> findApplicationById d' 4 = Some created
        \<and> app_job created = 11 \<and> applicant created = 9 \<and> status created = ''applied''
        \<and> matchScore created = Some 45"
    by (simp add: ids l)
  show ?thesis using A B C D by simp
qed

text \<open>
  C5 as stated fails: for a job that does not exist the response is 404, not 400.
\<close>

theorem missing_job_counterexample:
  "candidateMiddleware skilledCandidate \<and> ab_errors missingJobBody = []
   \<and> findJobById exampleDb (jobId missingJobBody) = None
   \<and> submitApplication exampleClock 4 exampleDb skilledCandidate missingJobBody
       = ((404, Message ''Job not found''), exampleDb)
   \<and> fst (fst (submitApplication exampleClock 4 exampleDb skilledCandidate missingJobBody)) \<noteq> 400"
  by (simp add: submitApplication_def candidateMiddleware_def skilledCandidate_def
      missingJobBody_def example_lookups)




end
